theory Spec2Isabelle
  imports Complex_Main
begin

section \<open>Batched tensors and evaluation points\<close>

text \<open>
  The line search of \<^verbatim>\<open>hager_zhang.py\<close> works on a batch of \<open>n\<close> independent searches.
  A tensor of shape \<open>[n]\<close> is modelled by its elements: a function from the index to the
  element, read at the indices below the batch size \<open>n\<close>, which the functions that reduce
  over the batch take as their first argument. An elementwise operation of the source is
  the pointwise operation here, and a scalar parameter is a single value used at every
  index (broadcasting).

  The working floating-point type is a type variable whose arithmetic and comparisons
  are the operations of the syntactic classes \<open>zero\<close>, \<open>one\<close>, \<open>plus\<close>, \<open>minus\<close>, \<open>times\<close>,
  \<open>inverse\<close>, \<open>abs\<close> and \<open>ord\<close>: no law of arithmetic is assumed, so every theorem holds for
  IEEE arithmetic with its rounding, infinities and NaN. The two primitives that are not
  class operations, \<^verbatim>\<open>tf.math.is_finite\<close> and \<^verbatim>\<open>tf.math.nextafter\<close>, are parameters
  \<open>is_finite\<close> and \<open>nextafter\<close>.
\<close>

type_synonym 'a tensor = "nat \<Rightarrow> 'a"

text \<open>
  The namedtuple returned by \<^verbatim>\<open>value_and_gradients_function\<close>: the fields \<^verbatim>\<open>x\<close>, \<^verbatim>\<open>f\<close>
  and \<^verbatim>\<open>df\<close>, each a tensor of shape \<open>[n]\<close>. Further fields, which the search passes on
  unread, are left out.
\<close>

record 'a val =
  x :: "'a tensor"
  f :: "'a tensor"
  df :: "'a tensor"

text \<open>
  \<^verbatim>\<open>HagerZhangLineSearchResult\<close>, in the field order of the namedtuple. The two scalar
  counters only count up and are natural numbers, as is \<^verbatim>\<open>max_iterations\<close>.
\<close>

record 'a HagerZhangLineSearchResult =
  converged :: "bool tensor"
  failed :: "bool tensor"
  func_evals :: nat
  iterations :: nat
  left :: "'a val"
  right :: "'a val"

text \<open>The value of an evaluation point at one batch element.\<close>

definition val_at :: "'a val \<Rightarrow> nat \<Rightarrow> 'a \<times> 'a \<times> 'a" where
  "val_at v i = (x v i, f v i, df v i)"

text \<open>\<^verbatim>\<open>tf.reduce_any\<close> over a boolean tensor of shape \<open>[n]\<close>.\<close>

primrec reduce_any :: "nat \<Rightarrow> bool tensor \<Rightarrow> bool" where
  "reduce_any 0 m = False"
| "reduce_any (Suc n) m = (reduce_any n m \<or> m n)"

text \<open>\<^verbatim>\<open>tf.where(cond, a, b)\<close>: elementwise, \<open>a\<close> where \<open>cond\<close> holds and \<open>b\<close> elsewhere.\<close>

definition tf_where :: "bool tensor \<Rightarrow> 'a tensor \<Rightarrow> 'a tensor \<Rightarrow> 'a tensor" where
  "tf_where c a b = (\<lambda>i. if c i then a i else b i)"

text \<open>
  Modelled from the spec: \<^verbatim>\<open>hzl.val_where\<close> and \<^verbatim>\<open>hzl.is_finite\<close> of
  \<^verbatim>\<open>internal/hager_zhang_lib.py\<close>, which is not among the sources. The spec calls them
  the elementwise masked-select and the finiteness test of an evaluation (its value and
  derivative). \<open>val_where\<close> is \<^verbatim>\<open>tf.where\<close> on every field of the namedtuple, with the
  argument order of \<^verbatim>\<open>tf.where\<close>.
\<close>

definition val_where :: "bool tensor \<Rightarrow> 'a val \<Rightarrow> 'a val \<Rightarrow> 'a val" where
  "val_where c tval fval =
     \<lparr>x = tf_where c (x tval) (x fval),
      f = tf_where c (f tval) (f fval),
      df = tf_where c (df tval) (df fval)\<rparr>"

definition hzl_is_finite :: "('a \<Rightarrow> bool) \<Rightarrow> 'a val \<Rightarrow> bool tensor" where
  "hzl_is_finite is_finite v = (\<lambda>i. is_finite (f v i) \<and> is_finite (df v i))"

section \<open>The comparator of adjacent floating-point values\<close>

text \<open>
  \<^verbatim>\<open>def _very_close(x, y): return tf.math.nextafter(x, y) >= y\<close>
\<close>

definition very_close :: "('a::ord \<Rightarrow> 'a \<Rightarrow> 'a) \<Rightarrow> 'a tensor \<Rightarrow> 'a tensor \<Rightarrow> bool tensor" where
  "very_close nextafter a b = (\<lambda>i. nextafter (a i) (b i) \<ge> b i)"

section \<open>The primitives consumed from outside the file\<close>

text \<open>
  The elementwise primitives of the numeric backend that are not class operations:
  \<^verbatim>\<open>tf.math.is_finite\<close> and \<^verbatim>\<open>tf.math.nextafter\<close> at the working type.
\<close>

record 'a tf_math =
  is_finite :: "'a \<Rightarrow> bool"
  nextafter :: "'a \<Rightarrow> 'a \<Rightarrow> 'a"

text \<open>
  \<^verbatim>\<open>value_and_gradients_function\<close>: called with a tensor of \<open>n\<close> step lengths, it returns
  the evaluation at each of them.
\<close>

type_synonym 'a vg_function = "'a tensor \<Rightarrow> 'a val"

text \<open>
  The results of \<^verbatim>\<open>hzl.bracket\<close>, \<^verbatim>\<open>hzl.secant2\<close> and \<^verbatim>\<open>hzl.update\<close>, with the fields
  that \<^verbatim>\<open>hager_zhang.py\<close> reads (\<^verbatim>\<open>iteration\<close>, \<^verbatim>\<open>converged\<close>, \<^verbatim>\<open>failed\<close>, \<^verbatim>\<open>num_evals\<close>,
  \<^verbatim>\<open>left\<close>, \<^verbatim>\<open>right\<close>), prefixed by the function they come from.
\<close>

record 'a bracket_result =
  br_iteration :: nat
  br_failed :: "bool tensor"
  br_num_evals :: nat
  br_left :: "'a val"
  br_right :: "'a val"

record 'a secant2_result =
  s2_converged :: "bool tensor"
  s2_failed :: "bool tensor"
  s2_num_evals :: nat
  s2_left :: "'a val"
  s2_right :: "'a val"

record 'a update_result =
  up_iteration :: nat
  up_failed :: "bool tensor"
  up_num_evals :: nat
  up_left :: "'a val"
  up_right :: "'a val"

text \<open>
  The module \<^verbatim>\<open>hzl\<close> (\<^verbatim>\<open>internal/hager_zhang_lib.py\<close>) is not among the sources; its three
  interval primitives are parameters, with the arguments of their call sites:
  \<^verbatim>\<open>hzl.bracket(value_and_gradients_function, init_interval, f_lim, max_iterations,
  expansion_param)\<close>,
  \<^verbatim>\<open>hzl.secant2(value_and_gradients_function, val_0, curr_interval, f_lim,
  sufficient_decrease_param, curvature_param)\<close> and
  \<^verbatim>\<open>hzl.update(value_and_gradients_function, left, right, val_mid, f_lim, active=...)\<close>.
\<close>

record 'a hzl =
  bracket :: "'a vg_function \<Rightarrow> 'a HagerZhangLineSearchResult \<Rightarrow> 'a tensor \<Rightarrow> nat \<Rightarrow> 'a
    \<Rightarrow> 'a bracket_result"
  secant2 :: "'a vg_function \<Rightarrow> 'a val \<Rightarrow> 'a HagerZhangLineSearchResult \<Rightarrow> 'a tensor \<Rightarrow> 'a \<Rightarrow> 'a
    \<Rightarrow> 'a secant2_result"
  update :: "'a vg_function \<Rightarrow> 'a val \<Rightarrow> 'a val \<Rightarrow> 'a val \<Rightarrow> 'a tensor \<Rightarrow> bool tensor
    \<Rightarrow> 'a update_result"

section \<open>Step-size repair\<close>

text \<open>
  \<^verbatim>\<open>_machine_eps(dtype)\<close> is \<^verbatim>\<open>np.finfo(dtype).eps\<close>, and \<^verbatim>\<open>_fix_step_size\<close> bounds its
  loop by \<^verbatim>\<open>iter_max = np.ceil(-np.log2(_machine_eps(val_c_input.x.dtype)))\<close>. The dtype is
  an argument of the model.
\<close>

datatype dtype = float16 | float32 | float64

fun machine_eps :: "dtype \<Rightarrow> real" where
  "machine_eps float16 = 1 / 2 ^ 10"
| "machine_eps float32 = 1 / 2 ^ 23"
| "machine_eps float64 = 1 / 2 ^ 52"

definition iter_max :: "dtype \<Rightarrow> nat" where
  "iter_max d = nat \<lceil>- log 2 (machine_eps d)\<rceil>"

text \<open>
  The loop of \<^verbatim>\<open>_fix_step_size\<close>, with the loop variables \<open>(i, val_c, to_fix)\<close> of the
  source. The model adds a fourth component, the trace of the oracle calls: the argument
  of every call of \<^verbatim>\<open>value_and_gradients_function\<close> made so far, in order.
\<close>

definition fix_step_cond :: "nat \<Rightarrow> nat \<Rightarrow> nat \<Rightarrow> bool tensor \<Rightarrow> bool" where
  "fix_step_cond n imax i to_fix = (i < imax \<and> reduce_any n to_fix)"

definition fix_step_next_c :: "'a::times \<Rightarrow> 'a val \<Rightarrow> bool tensor \<Rightarrow> 'a tensor" where
  "fix_step_next_c step_size_shrink_param val_c to_fix =
     tf_where to_fix (\<lambda>j. x val_c j * step_size_shrink_param) (x val_c)"

function fix_step_loop ::
  "nat \<Rightarrow> 'a tf_math \<Rightarrow> ('a::times) vg_function \<Rightarrow> 'a \<Rightarrow> nat
    \<Rightarrow> nat \<times> 'a val \<times> bool tensor \<times> 'a tensor list
    \<Rightarrow> nat \<times> 'a val \<times> bool tensor \<times> 'a tensor list" where
  "fix_step_loop n tfm vgf step_size_shrink_param imax (i, val_c, to_fix, calls) =
     (if fix_step_cond n imax i to_fix then
        (let next_c = fix_step_next_c step_size_shrink_param val_c to_fix;
             next_val_c = vgf next_c;
             still_to_fix = (\<lambda>j. to_fix j \<and> \<not> hzl_is_finite (is_finite tfm) next_val_c j)
         in fix_step_loop n tfm vgf step_size_shrink_param imax
              (i + 1, next_val_c, still_to_fix, calls @ [next_c]))
      else (i, val_c, to_fix, calls))"
  by pat_completeness auto
termination
  by (relation "measure (\<lambda>(n, tfm, vgf, s, imax, i, r). imax - i)")
    (auto simp: fix_step_cond_def)

declare fix_step_loop.simps [simp del]

definition to_fix_input :: "'a tf_math \<Rightarrow> 'a val \<Rightarrow> bool tensor \<Rightarrow> bool tensor" where
  "to_fix_input tfm val_c_input active =
     (\<lambda>j. active j \<and> \<not> hzl_is_finite (is_finite tfm) val_c_input j)"

definition fix_step_size ::
  "nat \<Rightarrow> 'a tf_math \<Rightarrow> dtype \<Rightarrow> ('a::times) vg_function \<Rightarrow> 'a val \<Rightarrow> bool tensor \<Rightarrow> 'a
    \<Rightarrow> nat \<times> 'a val \<times> bool tensor \<times> 'a tensor list" where
  "fix_step_size n tfm dt vgf val_c_input active step_size_shrink_param =
     (let to_fix = to_fix_input tfm val_c_input active
      in fix_step_loop n tfm vgf step_size_shrink_param (iter_max dt)
           (0, val_c_input, to_fix, []))"

text \<open>
  The loop variables at the start of trip \<open>k\<close> (counted from \<open>0\<close>), read back from the
  trace of the calls: \<open>val_c\<close> is the input before the first trip and afterwards the
  oracle's answer to the previous call, and \<open>to_fix\<close> holds the elements to fix at the
  start whose every re-evaluation so far was not finite.
\<close>

definition trip_val :: "'a vg_function \<Rightarrow> 'a val \<Rightarrow> 'a tensor list \<Rightarrow> nat \<Rightarrow> 'a val" where
  "trip_val vgf val_c_input calls k =
     (if k = 0 then val_c_input else vgf (calls ! (k - 1)))"

definition trip_to_fix ::
  "'a tf_math \<Rightarrow> 'a vg_function \<Rightarrow> bool tensor \<Rightarrow> 'a tensor list \<Rightarrow> nat \<Rightarrow> bool tensor" where
  "trip_to_fix tfm vgf to_fix calls k =
     (\<lambda>j. to_fix j \<and>
        list_all (\<lambda>c. \<not> hzl_is_finite (is_finite tfm) (vgf c) j) (take k calls))"

section \<open>Preparing the arguments\<close>

text \<open>
  \<^verbatim>\<open>_prepare_args\<close>: the optional arguments are options; the default initial step is
  \<open>1\<close>. Beside the four results of the source the model returns the trace of its oracle
  calls.
\<close>

definition prepare_args ::
  "('a::{zero, one, plus, times, abs}) vg_function \<Rightarrow> 'a tensor option \<Rightarrow> 'a val option
    \<Rightarrow> 'a val option \<Rightarrow> 'a \<Rightarrow> 'a val \<times> 'a val \<times> 'a tensor \<times> nat \<times> 'a tensor list" where
  "prepare_args vgf initial_step_size val_initial val_0 approximate_wolfe_threshold =
     (let (val_initial1, eval_count1, calls1) =
            (case val_initial of
               None \<Rightarrow>
                 (let step = (case initial_step_size of Some s \<Rightarrow> s | None \<Rightarrow> (\<lambda>i. 1))
                  in (vgf step, 1, [step]))
             | Some v \<Rightarrow> (v, 0, []));
          (val_01, eval_count2, calls2) =
            (case val_0 of
               None \<Rightarrow>
                 (let x_0 = (\<lambda>i. 0) in (vgf x_0, eval_count1 + 1, calls1 @ [x_0]))
             | Some v \<Rightarrow> (v, eval_count1, calls1));
          f_lim = (\<lambda>i. f val_01 i + approximate_wolfe_threshold * \<bar>f val_01 i\<bar>)
      in (val_01, val_initial1, f_lim, eval_count2, calls2))"

section \<open>The search loop after bracketing\<close>

text \<open>
  \<^verbatim>\<open>_line_search_inner_bisection\<close>. The midpoint is \<^verbatim>\<open>(left.x + right.x) / 2\<close>; the
  constant \<open>2\<close> is written \<open>1 + 1\<close>, which assumes nothing of the addition. The second
  component of the result is the trace of the function's one oracle call.
\<close>

definition bisection_midpoint ::
  "('a::{one, plus, inverse}) HagerZhangLineSearchResult \<Rightarrow> 'a tensor" where
  "bisection_midpoint search_interval =
     (\<lambda>i. (x (left search_interval) i + x (right search_interval) i) / (1 + 1))"

definition line_search_inner_bisection ::
  "nat \<Rightarrow> 'a tf_math \<Rightarrow> 'a hzl \<Rightarrow> ('a::{one, plus, inverse}) vg_function
    \<Rightarrow> 'a HagerZhangLineSearchResult \<Rightarrow> bool tensor \<Rightarrow> 'a tensor
    \<Rightarrow> 'a HagerZhangLineSearchResult \<times> 'a tensor list" where
  "line_search_inner_bisection n tfm lib vgf search_interval active f_lim =
     (let midpoint = bisection_midpoint search_interval;
          val_mid = vgf midpoint;
          is_valid_mid = hzl_is_finite (is_finite tfm) val_mid;
          still_active = (\<lambda>i. active i \<and> is_valid_mid i);
          new_failed = (\<lambda>i. active i \<and> \<not> is_valid_mid i);
          next_inteval = search_interval
            \<lparr>failed := (\<lambda>i. failed search_interval i \<or> new_failed i),
             func_evals := func_evals search_interval + 1\<rparr>
      in (if reduce_any n still_active then
            (let update_result =
                   update lib vgf (left next_inteval) (right next_inteval) val_mid f_lim
                     still_active
             in \<lparr>converged = converged next_inteval,
                 failed = (\<lambda>i. failed next_inteval i \<or> up_failed update_result i),
                 func_evals = func_evals next_inteval + up_num_evals update_result,
                 iterations = iterations next_inteval + up_iteration update_result,
                 left = up_left update_result,
                 right = up_right update_result\<rparr>)
          else next_inteval,
          [midpoint]))"

text \<open>
  The local values of \<^verbatim>\<open>_do_check_shrinkage\<close>: \<^verbatim>\<open>sufficient_shrinkage\<close> compares
  \<^verbatim>\<open>new_width\<close> with \<^verbatim>\<open>old_width * shrinkage_param\<close>, and \<^verbatim>\<open>func_is_flat\<close> asks the
  comparator about the function values at the ends of the old and of the new interval.
\<close>

definition sufficient_shrinkage ::
  "('a::{minus, times, ord}) \<Rightarrow> 'a HagerZhangLineSearchResult \<Rightarrow> 'a HagerZhangLineSearchResult
    \<Rightarrow> bool tensor" where
  "sufficient_shrinkage shrinkage_param curr_interval secant2_result =
     (\<lambda>i. let old_width = x (right curr_interval) i - x (left curr_interval) i;
              new_width = x (right secant2_result) i - x (left secant2_result) i
          in new_width < old_width * shrinkage_param)"

definition func_is_flat ::
  "('a::ord) tf_math \<Rightarrow> 'a HagerZhangLineSearchResult \<Rightarrow> 'a HagerZhangLineSearchResult
    \<Rightarrow> bool tensor" where
  "func_is_flat tfm curr_interval secant2_result =
     (\<lambda>i. very_close (nextafter tfm) (f (left curr_interval)) (f (right curr_interval)) i \<and>
          very_close (nextafter tfm) (f (left secant2_result)) (f (right secant2_result)) i)"

definition new_converged ::
  "('a::{minus, times, ord}) tf_math \<Rightarrow> 'a \<Rightarrow> 'a HagerZhangLineSearchResult
    \<Rightarrow> 'a HagerZhangLineSearchResult \<Rightarrow> bool tensor \<Rightarrow> bool tensor" where
  "new_converged tfm shrinkage_param curr_interval secant2_result should_check_shrinkage =
     (\<lambda>i. should_check_shrinkage i \<and>
          sufficient_shrinkage shrinkage_param curr_interval secant2_result i \<and>
          func_is_flat tfm curr_interval secant2_result i)"

definition needs_inner_bisect ::
  "('a::{minus, times, ord}) \<Rightarrow> 'a HagerZhangLineSearchResult
    \<Rightarrow> 'a HagerZhangLineSearchResult \<Rightarrow> bool tensor \<Rightarrow> bool tensor" where
  "needs_inner_bisect shrinkage_param curr_interval secant2_result should_check_shrinkage =
     (\<lambda>i. should_check_shrinkage i \<and>
          \<not> sufficient_shrinkage shrinkage_param curr_interval secant2_result i)"

definition do_check_shrinkage ::
  "nat \<Rightarrow> 'a tf_math \<Rightarrow> 'a hzl \<Rightarrow> ('a::{one, plus, minus, times, inverse, ord}) vg_function
    \<Rightarrow> 'a tensor \<Rightarrow> 'a \<Rightarrow> 'a HagerZhangLineSearchResult \<Rightarrow> 'a HagerZhangLineSearchResult
    \<Rightarrow> bool tensor \<Rightarrow> 'a HagerZhangLineSearchResult \<times> 'a tensor list" where
  "do_check_shrinkage n tfm lib vgf f_lim shrinkage_param curr_interval secant2_result
       should_check_shrinkage =
     (let inner_bisect_args = secant2_result
            \<lparr>converged := (\<lambda>i. converged secant2_result i \<or>
               new_converged tfm shrinkage_param curr_interval secant2_result
                 should_check_shrinkage i)\<rparr>;
          needs = needs_inner_bisect shrinkage_param curr_interval secant2_result
            should_check_shrinkage
      in if reduce_any n needs then
           line_search_inner_bisection n tfm lib vgf inner_bisect_args needs f_lim
         else (inner_bisect_args, []))"

text \<open>
  \<^verbatim>\<open>_loop_body\<close> of \<^verbatim>\<open>_line_search_after_bracketing\<close>: one trip of the search loop. The
  second component of the result is the trace of the oracle calls the trip makes in this
  file (the calls made inside \<^verbatim>\<open>hzl.secant2\<close> and \<^verbatim>\<open>hzl.update\<close> are theirs and are
  reported by their \<^verbatim>\<open>num_evals\<close>).
\<close>

definition secant2_step ::
  "'a hzl \<Rightarrow> 'a vg_function \<Rightarrow> 'a val \<Rightarrow> 'a tensor \<Rightarrow> 'a \<Rightarrow> 'a \<Rightarrow> 'a HagerZhangLineSearchResult
    \<Rightarrow> 'a HagerZhangLineSearchResult" where
  "secant2_step lib vgf val_0 f_lim sufficient_decrease_param curvature_param curr_interval =
     (let secant2_raw_result =
            secant2 lib vgf val_0 curr_interval f_lim sufficient_decrease_param curvature_param
      in \<lparr>converged = s2_converged secant2_raw_result,
          failed = s2_failed secant2_raw_result,
          func_evals = s2_num_evals secant2_raw_result,
          iterations = iterations curr_interval + 1,
          left = s2_left secant2_raw_result,
          right = s2_right secant2_raw_result\<rparr>)"

definition should_check_shrinkage :: "'a HagerZhangLineSearchResult \<Rightarrow> bool tensor" where
  "should_check_shrinkage secant2_result =
     (\<lambda>i. \<not> (converged secant2_result i \<or> failed secant2_result i))"

definition loop_body ::
  "nat \<Rightarrow> 'a tf_math \<Rightarrow> 'a hzl \<Rightarrow> ('a::{one, plus, minus, times, inverse, ord}) vg_function
    \<Rightarrow> 'a val \<Rightarrow> 'a tensor \<Rightarrow> 'a \<Rightarrow> 'a \<Rightarrow> 'a \<Rightarrow> 'a HagerZhangLineSearchResult
    \<Rightarrow> 'a HagerZhangLineSearchResult \<times> 'a tensor list" where
  "loop_body n tfm lib vgf val_0 f_lim sufficient_decrease_param curvature_param
       shrinkage_param curr_interval =
     (let secant2_result =
            secant2_step lib vgf val_0 f_lim sufficient_decrease_param curvature_param
              curr_interval;
          (next_args, calls) =
            (if reduce_any n (should_check_shrinkage secant2_result) then
               do_check_shrinkage n tfm lib vgf f_lim shrinkage_param curr_interval
                 secant2_result (should_check_shrinkage secant2_result)
             else (secant2_result, []));
          interval_shrunk =
            (\<lambda>i. \<not> failed next_args i \<and>
               very_close (nextafter tfm) (x (left next_args)) (x (right next_args)) i)
      in (next_args\<lparr>converged := (\<lambda>i. converged next_args i \<or> interval_shrunk i)\<rparr>, calls))"

definition loop_cond :: "nat \<Rightarrow> nat \<Rightarrow> 'a HagerZhangLineSearchResult \<Rightarrow> bool" where
  "loop_cond n max_iterations curr_interval =
     (iterations curr_interval < max_iterations \<and>
      reduce_any n (\<lambda>i. \<not> (converged curr_interval i \<or> failed curr_interval i)))"

text \<open>
  The values of the bisection within one trip, named for the statements about a trip:
  the mask \<^verbatim>\<open>needs_inner_bisect\<close> that the trip passes to the bisection as \<^verbatim>\<open>active\<close>, the
  evaluation \<^verbatim>\<open>val_mid\<close> at the midpoint, the mask \<^verbatim>\<open>still_active\<close> and the result of
  \<^verbatim>\<open>hzl.update\<close>. They depend on the interval before the trip and on the result
  \<open>sec\<close> of the secant2 step.
\<close>

definition bisect_mask ::
  "('a::{minus, times, ord}) \<Rightarrow> 'a HagerZhangLineSearchResult
    \<Rightarrow> 'a HagerZhangLineSearchResult \<Rightarrow> bool tensor" where
  "bisect_mask shrinkage_param curr_interval sec =
     needs_inner_bisect shrinkage_param curr_interval sec (should_check_shrinkage sec)"

definition bisect_val_mid ::
  "('a::{one, plus, inverse}) vg_function \<Rightarrow> 'a HagerZhangLineSearchResult \<Rightarrow> 'a val" where
  "bisect_val_mid vgf sec = vgf (bisection_midpoint sec)"

definition bisect_still_active ::
  "'a tf_math \<Rightarrow> ('a::{one, plus, minus, times, inverse, ord}) vg_function \<Rightarrow> 'a
    \<Rightarrow> 'a HagerZhangLineSearchResult \<Rightarrow> 'a HagerZhangLineSearchResult \<Rightarrow> bool tensor" where
  "bisect_still_active tfm vgf shrinkage_param curr_interval sec =
     (\<lambda>j. bisect_mask shrinkage_param curr_interval sec j \<and>
          hzl_is_finite (is_finite tfm) (bisect_val_mid vgf sec) j)"

definition bisect_update ::
  "'a tf_math \<Rightarrow> 'a hzl \<Rightarrow> ('a::{one, plus, minus, times, inverse, ord}) vg_function
    \<Rightarrow> 'a tensor \<Rightarrow> 'a \<Rightarrow> 'a HagerZhangLineSearchResult \<Rightarrow> 'a HagerZhangLineSearchResult
    \<Rightarrow> 'a update_result" where
  "bisect_update tfm lib vgf f_lim shrinkage_param curr_interval sec =
     update lib vgf (left sec) (right sec) (bisect_val_mid vgf sec) f_lim
       (bisect_still_active tfm vgf shrinkage_param curr_interval sec)"

text \<open>
  Every trip advances the shared iteration counter, which is what ends the loop of
  \<^verbatim>\<open>_line_search_after_bracketing\<close> when no element converges.
\<close>

lemma loop_body_iterations:
  "iterations curr_interval <
     iterations (fst (loop_body n tfm lib vgf val_0 f_lim sufficient_decrease_param
       curvature_param shrinkage_param curr_interval))"
  by (simp add: loop_body_def do_check_shrinkage_def line_search_inner_bisection_def
      secant2_step_def Let_def split: prod.splits)

function line_search_loop ::
  "nat \<Rightarrow> 'a tf_math \<Rightarrow> 'a hzl \<Rightarrow> ('a::{one, plus, minus, times, inverse, ord}) vg_function
    \<Rightarrow> 'a val \<Rightarrow> 'a tensor \<Rightarrow> nat \<Rightarrow> 'a \<Rightarrow> 'a \<Rightarrow> 'a
    \<Rightarrow> 'a HagerZhangLineSearchResult \<times> 'a tensor list
    \<Rightarrow> 'a HagerZhangLineSearchResult \<times> 'a tensor list" where
  "line_search_loop n tfm lib vgf val_0 f_lim max_iterations sufficient_decrease_param
       curvature_param shrinkage_param (curr_interval, calls) =
     (if loop_cond n max_iterations curr_interval then
        line_search_loop n tfm lib vgf val_0 f_lim max_iterations sufficient_decrease_param
          curvature_param shrinkage_param
          (fst (loop_body n tfm lib vgf val_0 f_lim sufficient_decrease_param curvature_param
                  shrinkage_param curr_interval),
           calls @ snd (loop_body n tfm lib vgf val_0 f_lim sufficient_decrease_param
                  curvature_param shrinkage_param curr_interval))
      else (curr_interval, calls))"
  by pat_completeness auto
termination
proof (relation "measure (\<lambda>(n, tfm, lib, vgf, val_0, f_lim, max_iterations, sdp, cp, sp, st, calls).
    max_iterations - iterations st)", goal_cases)
  case 1
  show ?case by simp
next
  case 2
  then show ?case
    by (simp add: loop_cond_def diff_less_mono2 loop_body_iterations)
qed

declare line_search_loop.simps [simp del]

text \<open>
  The state after \<open>k\<close> trips of the loop (or at its exit, when the loop ends earlier): the
  intermediate states of \<open>line_search_loop\<close>.
\<close>

fun loop_trips ::
  "nat \<Rightarrow> 'a tf_math \<Rightarrow> 'a hzl \<Rightarrow> ('a::{one, plus, minus, times, inverse, ord}) vg_function
    \<Rightarrow> 'a val \<Rightarrow> 'a tensor \<Rightarrow> nat \<Rightarrow> 'a \<Rightarrow> 'a \<Rightarrow> 'a \<Rightarrow> nat
    \<Rightarrow> 'a HagerZhangLineSearchResult \<Rightarrow> 'a HagerZhangLineSearchResult" where
  "loop_trips n tfm lib vgf val_0 f_lim max_iterations sufficient_decrease_param
       curvature_param shrinkage_param 0 curr_interval = curr_interval"
| "loop_trips n tfm lib vgf val_0 f_lim max_iterations sufficient_decrease_param
       curvature_param shrinkage_param (Suc k) curr_interval =
     (if loop_cond n max_iterations curr_interval then
        loop_trips n tfm lib vgf val_0 f_lim max_iterations sufficient_decrease_param
          curvature_param shrinkage_param k
          (fst (loop_body n tfm lib vgf val_0 f_lim sufficient_decrease_param curvature_param
                  shrinkage_param curr_interval))
      else curr_interval)"

definition line_search_after_bracketing ::
  "nat \<Rightarrow> 'a tf_math \<Rightarrow> 'a hzl \<Rightarrow> ('a::{one, plus, minus, times, inverse, ord}) vg_function
    \<Rightarrow> 'a HagerZhangLineSearchResult \<Rightarrow> 'a val \<Rightarrow> 'a tensor \<Rightarrow> nat \<Rightarrow> 'a \<Rightarrow> 'a \<Rightarrow> 'a
    \<Rightarrow> 'a HagerZhangLineSearchResult \<times> 'a tensor list" where
  "line_search_after_bracketing n tfm lib vgf search_interval val_0 f_lim max_iterations
       sufficient_decrease_param curvature_param shrinkage_param =
     line_search_loop n tfm lib vgf val_0 f_lim max_iterations sufficient_decrease_param
       curvature_param shrinkage_param (search_interval, [])"

section \<open>Bracketing and the entry point\<close>

text \<open>\<^verbatim>\<open>_bracket_and_search\<close>.\<close>

definition line_search_args ::
  "('a::ord) tf_math \<Rightarrow> nat \<Rightarrow> 'a HagerZhangLineSearchResult \<Rightarrow> 'a bracket_result
    \<Rightarrow> 'a HagerZhangLineSearchResult" where
  "line_search_args tfm max_iterations init_interval bracket_result =
     (let converged1 =
            (\<lambda>i. converged init_interval i \<or>
               very_close (nextafter tfm) (x (br_left bracket_result))
                 (x (br_right bracket_result)) i);
          exhausted_iterations =
            (\<lambda>i. \<not> converged1 i \<and> br_iteration bracket_result \<ge> max_iterations)
      in \<lparr>converged = converged1,
          failed = (\<lambda>i. br_failed bracket_result i \<or> exhausted_iterations i),
          func_evals = br_num_evals bracket_result,
          iterations = br_iteration bracket_result,
          left = br_left bracket_result,
          right = br_right bracket_result\<rparr>)"

definition bracket_and_search ::
  "nat \<Rightarrow> 'a tf_math \<Rightarrow> 'a hzl \<Rightarrow> ('a::{one, plus, minus, times, inverse, ord}) vg_function
    \<Rightarrow> 'a HagerZhangLineSearchResult \<Rightarrow> 'a tensor \<Rightarrow> nat \<Rightarrow> 'a \<Rightarrow> 'a \<Rightarrow> 'a \<Rightarrow> 'a
    \<Rightarrow> 'a HagerZhangLineSearchResult \<times> 'a tensor list" where
  "bracket_and_search n tfm lib vgf init_interval f_lim max_iterations shrinkage_param
       expansion_param sufficient_decrease_param curvature_param =
     (let bracket_result =
            bracket lib vgf init_interval f_lim max_iterations expansion_param
      in line_search_after_bracketing n tfm lib vgf
           (line_search_args tfm max_iterations init_interval bracket_result)
           (left init_interval) f_lim max_iterations sufficient_decrease_param
           curvature_param shrinkage_param)"

text \<open>
  \<^verbatim>\<open>hager_zhang\<close>, in two parts. \<open>init_interval\<close> is the function up to the value it calls
  \<^verbatim>\<open>init_interval\<close>: it prepares the arguments, validates the inputs, repairs the step
  size and builds the initial result. It returns that result, \<^verbatim>\<open>f_lim\<close> and the trace of
  the oracle calls. \<open>hager_zhang\<close> then brackets and searches when an element is active.
  The optional \<^verbatim>\<open>converged\<close> mask is the option \<open>converged_in\<close>.
\<close>

definition valid_inputs ::
  "('a::{zero, ord}) tf_math \<Rightarrow> 'a val \<Rightarrow> 'a val \<Rightarrow> bool tensor" where
  "valid_inputs tfm val_0 val_initial =
     (\<lambda>i. hzl_is_finite (is_finite tfm) val_0 i \<and> df val_0 i < 0 \<and>
          is_finite tfm (x val_initial i) \<and> x val_initial i > 0)"

definition init_converged :: "bool tensor option \<Rightarrow> bool tensor" where
  "init_converged converged_in = (case converged_in of None \<Rightarrow> (\<lambda>i. False) | Some c \<Rightarrow> c)"

definition init_interval ::
  "nat \<Rightarrow> 'a tf_math \<Rightarrow> dtype \<Rightarrow> ('a::{zero, one, plus, times, abs, ord}) vg_function
    \<Rightarrow> 'a tensor option \<Rightarrow> 'a val option \<Rightarrow> 'a val option \<Rightarrow> bool tensor option \<Rightarrow> 'a \<Rightarrow> 'a
    \<Rightarrow> 'a HagerZhangLineSearchResult \<times> 'a tensor \<times> 'a tensor list" where
  "init_interval n tfm dt vgf initial_step_size value_at_initial_step value_at_zero
       converged_in threshold_use_approximate_wolfe_condition step_size_shrink_param =
     (let (val_0, val_initial, f_lim, prepare_evals, calls0) =
            prepare_args vgf initial_step_size value_at_initial_step value_at_zero
              threshold_use_approximate_wolfe_condition;
          valid = valid_inputs tfm val_0 val_initial;
          failed0 = (\<lambda>i. \<not> init_converged converged_in i \<and> \<not> valid i);
          active = (\<lambda>i. \<not> init_converged converged_in i \<and> valid i);
          (fix_step_evals, val_c, fix_failed, calls1) =
            fix_step_size n tfm dt vgf val_initial active step_size_shrink_param
      in (\<lparr>converged = init_converged converged_in,
           failed = (\<lambda>i. failed0 i \<or> fix_failed i),
           func_evals = prepare_evals + fix_step_evals,
           iterations = 0,
           left = val_0,
           right = val_where (init_converged converged_in) val_0 val_c\<rparr>,
          f_lim, calls0 @ calls1))"

definition hager_zhang ::
  "nat \<Rightarrow> 'a tf_math \<Rightarrow> 'a hzl \<Rightarrow> dtype
    \<Rightarrow> ('a::{zero, one, plus, minus, times, inverse, abs, ord}) vg_function
    \<Rightarrow> 'a tensor option \<Rightarrow> 'a val option \<Rightarrow> 'a val option \<Rightarrow> bool tensor option
    \<Rightarrow> 'a \<Rightarrow> 'a \<Rightarrow> 'a \<Rightarrow> 'a \<Rightarrow> 'a \<Rightarrow> 'a \<Rightarrow> nat
    \<Rightarrow> 'a HagerZhangLineSearchResult \<times> 'a tensor list" where
  "hager_zhang n tfm lib dt vgf initial_step_size value_at_initial_step value_at_zero
       converged_in threshold_use_approximate_wolfe_condition shrinkage_param
       expansion_param sufficient_decrease_param curvature_param step_size_shrink_param
       max_iterations =
     (let (init, f_lim, calls0) =
            init_interval n tfm dt vgf initial_step_size value_at_initial_step value_at_zero
              converged_in threshold_use_approximate_wolfe_condition step_size_shrink_param;
          init_active = (\<lambda>i. \<not> failed init i \<and> \<not> converged init i)
      in if reduce_any n init_active then
           (let (res, calls1) =
                  bracket_and_search n tfm lib vgf init f_lim max_iterations shrinkage_param
                    expansion_param sufficient_decrease_param curvature_param
            in (res, calls0 @ calls1))
         else (init, calls0))"

section \<open>The contract of the interval primitives\<close>

text \<open>
  Modelled from the spec: the contract of \<^verbatim>\<open>hzl.secant2\<close>, \<^verbatim>\<open>hzl.update\<close> and \<^verbatim>\<open>hzl.bracket\<close>,
  whose code (\<^verbatim>\<open>internal/hager_zhang_lib.py\<close>) is not among the sources. The spec freezes
  an element that has converged or failed ("subsequent steps must use masked/selective
  application so its left/right stop changing") and restricts \<^verbatim>\<open>update\<close> to its \<^verbatim>\<open>active\<close>
  mask. For the elements \<open>i < n\<close> of the batch: \<^verbatim>\<open>secant2\<close> and \<^verbatim>\<open>bracket\<close> return a frozen
  element with every flag that is set still set and with its two end points as they
  received them, and \<^verbatim>\<open>update\<close> returns the end points of an element outside its mask as
  it received them.
\<close>

definition secant2_contract :: "nat \<Rightarrow> 'a hzl \<Rightarrow> bool" where
  "secant2_contract n lib =
     (\<forall>vgf val_0 st f_lim sdp cp i.
        i < n \<and> (converged st i \<or> failed st i) \<longrightarrow>
          (converged st i \<longrightarrow> s2_converged (secant2 lib vgf val_0 st f_lim sdp cp) i) \<and>
          (failed st i \<longrightarrow> s2_failed (secant2 lib vgf val_0 st f_lim sdp cp) i) \<and>
          val_at (s2_left (secant2 lib vgf val_0 st f_lim sdp cp)) i = val_at (left st) i \<and>
          val_at (s2_right (secant2 lib vgf val_0 st f_lim sdp cp)) i = val_at (right st) i)"

definition update_contract :: "nat \<Rightarrow> 'a hzl \<Rightarrow> bool" where
  "update_contract n lib =
     (\<forall>vgf val_left val_right val_trial f_lim active i.
        i < n \<and> \<not> active i \<longrightarrow>
          val_at (up_left (update lib vgf val_left val_right val_trial f_lim active)) i =
            val_at val_left i \<and>
          val_at (up_right (update lib vgf val_left val_right val_trial f_lim active)) i =
            val_at val_right i)"

definition bracket_contract :: "nat \<Rightarrow> 'a hzl \<Rightarrow> bool" where
  "bracket_contract n lib =
     (\<forall>vgf st f_lim max_iterations expansion_param i.
        i < n \<and> (converged st i \<or> failed st i) \<longrightarrow>
          (failed st i \<longrightarrow>
             br_failed (bracket lib vgf st f_lim max_iterations expansion_param) i) \<and>
          val_at (br_left (bracket lib vgf st f_lim max_iterations expansion_param)) i =
            val_at (left st) i \<and>
          val_at (br_right (bracket lib vgf st f_lim max_iterations expansion_param)) i =
            val_at (right st) i)"

text \<open>
  Two assumptions used for the steps passed to the oracle: the oracle returns, in the
  field \<^verbatim>\<open>x\<close> of element \<open>j\<close>, the step it was called with (the docstring's "the point at
  which the function was evaluated"), and the product of a finite step and the shrink
  factor is finite.
\<close>

definition oracle_echo :: "'a vg_function \<Rightarrow> nat \<Rightarrow> bool" where
  "oracle_echo vgf j = (\<forall>c. x (vgf c) j = c j)"

definition finite_product :: "('a::times) tf_math \<Rightarrow> 'a \<Rightarrow> bool" where
  "finite_product tfm s = (\<forall>a. is_finite tfm a \<longrightarrow> is_finite tfm (a * s))"

text \<open>
  An element is latched from a state \<open>st\<close> of the search to a later state \<open>st'\<close>: each of
  its flags that is set in \<open>st\<close> is set in \<open>st'\<close>, and its two end points are the same.
\<close>

definition latched_at ::
  "'a HagerZhangLineSearchResult \<Rightarrow> 'a HagerZhangLineSearchResult \<Rightarrow> nat \<Rightarrow> bool" where
  "latched_at st st' i =
     ((converged st i \<longrightarrow> converged st' i) \<and> (failed st i \<longrightarrow> failed st' i) \<and>
      val_at (left st') i = val_at (left st) i \<and> val_at (right st') i = val_at (right st) i)"

section \<open>A concrete number format\<close>

text \<open>
  A number format for concrete inputs. The finite values are rationals, computed
  exactly, and the one non-finite value \<open>NaN\<close> absorbs every operation and compares false
  with everything, as the IEEE NaN does. \<open>fl_ulp\<close> stands for the distance between
  neighbouring floating-point values: \<open>nextafter_fl\<close> moves its first argument towards the
  second by that distance, and not beyond the second, as \<^verbatim>\<open>nextafter\<close> does.
\<close>

datatype fl = Fin rat | NaN

fun is_finite_fl :: "fl \<Rightarrow> bool" where
  "is_finite_fl (Fin r) = True"
| "is_finite_fl NaN = False"

definition fl_ulp :: rat where
  "fl_ulp = 1 / 1024"

fun nextafter_fl :: "fl \<Rightarrow> fl \<Rightarrow> fl" where
  "nextafter_fl (Fin a) (Fin b) =
     (if a < b then Fin (min (a + fl_ulp) b)
      else if b < a then Fin (max (a - fl_ulp) b)
      else Fin b)"
| "nextafter_fl _ _ = NaN"

instantiation fl :: "{zero, one, plus, minus, times, inverse, abs, ord}"
begin

definition zero_fl :: fl where
  "zero_fl = Fin 0"

definition one_fl :: fl where
  "one_fl = Fin 1"

fun plus_fl :: "fl \<Rightarrow> fl \<Rightarrow> fl" where
  "plus_fl (Fin a) (Fin b) = Fin (a + b)"
| "plus_fl _ _ = NaN"

fun minus_fl :: "fl \<Rightarrow> fl \<Rightarrow> fl" where
  "minus_fl (Fin a) (Fin b) = Fin (a - b)"
| "minus_fl _ _ = NaN"

fun times_fl :: "fl \<Rightarrow> fl \<Rightarrow> fl" where
  "times_fl (Fin a) (Fin b) = Fin (a * b)"
| "times_fl _ _ = NaN"

fun divide_fl :: "fl \<Rightarrow> fl \<Rightarrow> fl" where
  "divide_fl (Fin a) (Fin b) = (if b = 0 then NaN else Fin (a / b))"
| "divide_fl _ _ = NaN"

fun inverse_fl :: "fl \<Rightarrow> fl" where
  "inverse_fl (Fin a) = (if a = 0 then NaN else Fin (1 / a))"
| "inverse_fl NaN = NaN"

fun abs_fl :: "fl \<Rightarrow> fl" where
  "abs_fl (Fin a) = Fin \<bar>a\<bar>"
| "abs_fl NaN = NaN"

fun less_eq_fl :: "fl \<Rightarrow> fl \<Rightarrow> bool" where
  "less_eq_fl (Fin a) (Fin b) = (a \<le> b)"
| "less_eq_fl _ _ = False"

fun less_fl :: "fl \<Rightarrow> fl \<Rightarrow> bool" where
  "less_fl (Fin a) (Fin b) = (a < b)"
| "less_fl _ _ = False"

instance ..

end

definition tfm_fl :: "fl tf_math" where
  "tfm_fl = \<lparr>is_finite = is_finite_fl, nextafter = nextafter_fl\<rparr>"

text \<open>
  Oracles for concrete inputs. \<open>vgf_quad\<close> is the quadratic of the docstring,
  \<open>f(x) = (x - 1.3)\<^sup>2\<close>, made non-finite beyond \<open>|x| = 100\<close> as an overflow would;
  \<open>vgf_flat\<close> has the same value \<open>5\<close> everywhere and the derivative \<open>x - 2\<close>, a function
  whose variation is below the resolution of the format; \<open>vgf_nan\<close> is never finite.
\<close>

fun quad_fl :: "fl \<Rightarrow> fl \<times> fl" where
  "quad_fl (Fin r) =
     (if \<bar>r\<bar> \<le> 100 then (Fin ((r - 13 / 10) * (r - 13 / 10)), Fin (2 * (r - 13 / 10)))
      else (NaN, NaN))"
| "quad_fl NaN = (NaN, NaN)"

definition vgf_quad :: "fl vg_function" where
  "vgf_quad c = \<lparr>x = c, f = (\<lambda>i. fst (quad_fl (c i))), df = (\<lambda>i. snd (quad_fl (c i)))\<rparr>"

definition vgf_flat :: "fl vg_function" where
  "vgf_flat c = \<lparr>x = c, f = (\<lambda>i. c i - c i + Fin 5), df = (\<lambda>i. c i - Fin 2)\<rparr>"

definition vgf_nan :: "fl vg_function" where
  "vgf_nan c = \<lparr>x = c, f = (\<lambda>i. NaN), df = (\<lambda>i. NaN)\<rparr>"

text \<open>
  Interval primitives for concrete inputs, each within the contract above.
  \<open>bracket_id\<close> accepts the initial interval as the bracket, in no iteration.
  \<open>secant2_id\<close> makes no progress; \<open>secant2_narrow\<close> moves every active element to the
  interval \<open>[1, 3]\<close> with two evaluations. \<open>update_right\<close> replaces the right end of the
  active elements by the trial point, with no evaluation and no iteration of its own.
  \<open>secant2_eval\<close> evaluates the oracle once, at the secant point of every element of the
  batch, reports a failure where that evaluation is not finite, and leaves the flags
  that are set and the end points as they are.
\<close>

definition bracket_id ::
  "fl vg_function \<Rightarrow> fl HagerZhangLineSearchResult \<Rightarrow> fl tensor \<Rightarrow> nat \<Rightarrow> fl
    \<Rightarrow> fl bracket_result" where
  "bracket_id vgf st f_lim max_iterations expansion_param =
     \<lparr>br_iteration = iterations st, br_failed = failed st, br_num_evals = func_evals st,
      br_left = left st, br_right = right st\<rparr>"

definition secant2_id ::
  "fl vg_function \<Rightarrow> fl val \<Rightarrow> fl HagerZhangLineSearchResult \<Rightarrow> fl tensor \<Rightarrow> fl \<Rightarrow> fl
    \<Rightarrow> fl secant2_result" where
  "secant2_id vgf val_0 st f_lim sdp cp =
     \<lparr>s2_converged = converged st, s2_failed = failed st, s2_num_evals = func_evals st,
      s2_left = left st, s2_right = right st\<rparr>"

definition secant2_narrow ::
  "fl vg_function \<Rightarrow> fl val \<Rightarrow> fl HagerZhangLineSearchResult \<Rightarrow> fl tensor \<Rightarrow> fl \<Rightarrow> fl
    \<Rightarrow> fl secant2_result" where
  "secant2_narrow vgf val_0 st f_lim sdp cp =
     \<lparr>s2_converged = converged st, s2_failed = failed st,
      s2_num_evals = func_evals st + 2,
      s2_left = val_where (\<lambda>i. \<not> (converged st i \<or> failed st i)) (vgf (\<lambda>i. Fin 1)) (left st),
      s2_right = val_where (\<lambda>i. \<not> (converged st i \<or> failed st i)) (vgf (\<lambda>i. Fin 3)) (right st)\<rparr>"

definition update_right ::
  "fl vg_function \<Rightarrow> fl val \<Rightarrow> fl val \<Rightarrow> fl val \<Rightarrow> fl tensor \<Rightarrow> bool tensor
    \<Rightarrow> fl update_result" where
  "update_right vgf val_left val_right val_trial f_lim active =
     \<lparr>up_iteration = 0, up_failed = (\<lambda>i. False), up_num_evals = 0,
      up_left = val_left, up_right = val_where active val_trial val_right\<rparr>"

definition lib_bisect :: "fl hzl" where
  "lib_bisect = \<lparr>bracket = bracket_id, secant2 = secant2_id, update = update_right\<rparr>"

definition lib_narrow :: "fl hzl" where
  "lib_narrow = \<lparr>bracket = bracket_id, secant2 = secant2_narrow, update = update_right\<rparr>"

text \<open>
  Modelled from the spec: the secant step of \<^verbatim>\<open>hzl.secant2\<close>, whose code is not among the
  sources, "a step computed by linear interpolation of derivatives between two points":
  the zero of the line through \<open>(left.x, left.df)\<close> and \<open>(right.x, right.df)\<close>.
\<close>

definition secant_point :: "fl HagerZhangLineSearchResult \<Rightarrow> fl tensor" where
  "secant_point st =
     (\<lambda>i. (x (left st) i * df (right st) i - x (right st) i * df (left st) i) /
          (df (right st) i - df (left st) i))"

definition secant2_eval ::
  "fl vg_function \<Rightarrow> fl val \<Rightarrow> fl HagerZhangLineSearchResult \<Rightarrow> fl tensor \<Rightarrow> fl \<Rightarrow> fl
    \<Rightarrow> fl secant2_result" where
  "secant2_eval vgf val_0 st f_lim sdp cp =
     \<lparr>s2_converged = converged st,
      s2_failed = (\<lambda>i. failed st i \<or> \<not> hzl_is_finite is_finite_fl (vgf (secant_point st)) i),
      s2_num_evals = func_evals st + 1,
      s2_left = left st, s2_right = right st\<rparr>"

definition lib_eval :: "fl hzl" where
  "lib_eval = \<lparr>bracket = bracket_id, secant2 = secant2_eval, update = update_right\<rparr>"

text \<open>An evaluation point with the same value at every element of the batch.\<close>

definition const_val :: "fl \<Rightarrow> fl \<Rightarrow> fl \<Rightarrow> fl val" where
  "const_val a b c = \<lparr>x = (\<lambda>i. a), f = (\<lambda>i. b), df = (\<lambda>i. c)\<rparr>"

text \<open>
  Concrete inputs. \<open>val_0_fl\<close> is the evaluation at zero of a batch of three in which
  only element \<open>1\<close> has a descent direction. \<open>st_latch\<close> is a state of the search loop
  whose element \<open>0\<close> has converged and whose element \<open>1\<close> is active on \<open>[0, 10]\<close>;
  \<open>st_flat\<close> and \<open>st_quad\<close> are states with every element active on \<open>[0, 10]\<close>, for the
  flat and for the quadratic oracle, and \<open>st_wide\<close> is active on \<open>[0, 400]\<close>, whose
  midpoint the quadratic oracle cannot evaluate.
\<close>

definition val_0_fl :: "fl val" where
  "val_0_fl =
     \<lparr>x = (\<lambda>i. Fin 0), f = (\<lambda>i. Fin (169 / 100)),
      df = (\<lambda>i. if i = 1 then Fin (- (13 / 5)) else Fin 1)\<rparr>"

definition st_latch :: "fl HagerZhangLineSearchResult" where
  "st_latch =
     \<lparr>converged = (\<lambda>i. i = 0), failed = (\<lambda>i. False), func_evals = 2, iterations = 0,
      left = vgf_quad (\<lambda>i. Fin 0),
      right = vgf_quad (\<lambda>i. if i = 0 then Fin 0 else Fin 10)\<rparr>"

definition st_flat :: "fl HagerZhangLineSearchResult" where
  "st_flat =
     \<lparr>converged = (\<lambda>i. False), failed = (\<lambda>i. False), func_evals = 2, iterations = 0,
      left = vgf_flat (\<lambda>i. Fin 0), right = vgf_flat (\<lambda>i. Fin 10)\<rparr>"

definition st_quad :: "fl HagerZhangLineSearchResult" where
  "st_quad =
     \<lparr>converged = (\<lambda>i. False), failed = (\<lambda>i. False), func_evals = 2, iterations = 0,
      left = vgf_quad (\<lambda>i. Fin 0), right = vgf_quad (\<lambda>i. Fin 10)\<rparr>"

definition st_wide :: "fl HagerZhangLineSearchResult" where
  "st_wide =
     \<lparr>converged = (\<lambda>i. False), failed = (\<lambda>i. False), func_evals = 2, iterations = 0,
      left = vgf_quad (\<lambda>i. Fin 0), right = const_val (Fin 400) (Fin 1) (Fin 1)\<rparr>"

section \<open>The comparator on concrete values\<close>

text \<open>
  On finite values the comparator holds exactly when the second argument is at most one
  step above the first; it holds for every second argument below the first.
\<close>

lemma very_close_fl_iff:
  "very_close nextafter_fl (\<lambda>i. Fin a) (\<lambda>i. Fin b) i \<longleftrightarrow> b \<le> a + fl_ulp"
  by (auto simp: very_close_def fl_ulp_def)

text \<open>
  C9. The comparator steps from its first argument, whichever of the two is the smaller:
  at \<open>x = 5\<close>, \<open>y = 1\<close> one step from \<open>x\<close> towards \<open>y\<close> is still above \<open>y\<close>, and the
  comparator answers true for two values that are far apart, while with the arguments
  exchanged it answers false.
\<close>

theorem very_close_depends_on_order:
  "very_close nextafter_fl (\<lambda>i. Fin 5) (\<lambda>i. Fin 1) 0 = True \<and>
   very_close nextafter_fl (\<lambda>i. Fin 1) (\<lambda>i. Fin 5) 0 = False"
  by (simp add: very_close_def fl_ulp_def)

section \<open>Evaluation rules\<close>

lemma reduce_any_numeral [simp]:
  "reduce_any (numeral k) m = (reduce_any (pred_numeral k) m \<or> m (pred_numeral k))"
  by (simp add: numeral_eq_Suc)

lemma reduce_any_iff: "reduce_any n m \<longleftrightarrow> (\<exists>i<n. m i)"
  by (induction n) (auto simp: less_Suc_eq)

lemma iter_max_simps:
  "iter_max float16 = 10" "iter_max float32 = 23" "iter_max float64 = 52"
  by (simp_all add: iter_max_def log_divide log_pow_cancel del: power_numeral)

text \<open>The concrete interval primitives keep the contract.\<close>

lemma lib_bisect_contracts:
  "secant2_contract n lib_bisect" "update_contract n lib_bisect" "bracket_contract n lib_bisect"
  by (simp_all add: secant2_contract_def update_contract_def bracket_contract_def lib_bisect_def
      secant2_id_def update_right_def bracket_id_def val_where_def tf_where_def val_at_def)

lemma lib_eval_contracts:
  "secant2_contract n lib_eval" "update_contract n lib_eval" "bracket_contract n lib_eval"
  by (simp_all add: secant2_contract_def update_contract_def bracket_contract_def lib_eval_def
      secant2_eval_def update_right_def bracket_id_def val_where_def tf_where_def val_at_def)

section \<open>The repair loop\<close>

lemma trip_to_fix_0: "trip_to_fix tfm vgf t calls 0 = t"
  by (simp add: trip_to_fix_def)

lemma trip_to_fix_Suc:
  "trip_to_fix tfm vgf t (c # calls) (Suc k) =
     trip_to_fix tfm vgf (\<lambda>j. t j \<and> \<not> hzl_is_finite (is_finite tfm) (vgf c) j) calls k"
  by (auto simp: trip_to_fix_def)

lemma trip_val_Suc:
  "trip_val vgf v (c # calls) (Suc k) = trip_val vgf (vgf c) calls k"
  by (cases k) (simp_all add: trip_val_def)

text \<open>
  The loop from any of its states: it appends one call per trip, stays below the
  ceiling, and every call is built from the loop variables of its trip.
\<close>

lemma fix_step_loop_props:
  assumes "fix_step_loop n tfm vgf s imax (i, v, t, cs) = (i', v', t', cs')"
  shows "\<exists>new. cs' = cs @ new \<and> i' = i + length new \<and>
           (i \<le> imax \<longrightarrow> i' \<le> imax) \<and>
           t' = trip_to_fix tfm vgf t new (length new) \<and>
           v' = trip_val vgf v new (length new) \<and>
           (\<forall>k < length new. new ! k =
              fix_step_next_c s (trip_val vgf v new k) (trip_to_fix tfm vgf t new k)) \<and>
           \<not> fix_step_cond n imax i' t' \<and>
           (\<not> fix_step_cond n imax i t \<longrightarrow> new = [])"
  using assms
proof (induction n tfm vgf s imax "(i, v, t, cs)" arbitrary: i v t cs
    rule: fix_step_loop.induct)
  case (1 n tfm vgf s imax i v t cs)
  show ?case
  proof (cases "fix_step_cond n imax i t")
    case False
    with 1(2) show ?thesis
      by (auto simp: fix_step_loop.simps[of n tfm vgf s imax i v t cs] trip_to_fix_def
          trip_val_def)
  next
    case True
    let ?c = "fix_step_next_c s v t"
    let ?t2 = "\<lambda>j. t j \<and> \<not> hzl_is_finite (is_finite tfm) (vgf ?c) j"
    from True 1(2)
    have eq: "fix_step_loop n tfm vgf s imax (i + 1, vgf ?c, ?t2, cs @ [?c]) = (i', v', t', cs')"
      by (simp add: fix_step_loop.simps[of n tfm vgf s imax i v t cs] Let_def)
    from 1(1)[OF True refl refl refl eq] obtain new where
      new: "cs' = (cs @ [?c]) @ new" "i' = i + 1 + length new"
        "i + 1 \<le> imax \<longrightarrow> i' \<le> imax"
        "t' = trip_to_fix tfm vgf ?t2 new (length new)"
        "v' = trip_val vgf (vgf ?c) new (length new)"
        "\<forall>k < length new. new ! k =
              fix_step_next_c s (trip_val vgf (vgf ?c) new k) (trip_to_fix tfm vgf ?t2 new k)"
        "\<not> fix_step_cond n imax i' t'"
      by auto
    from True have lt: "i < imax" by (simp add: fix_step_cond_def)
    have calls: "(?c # new) ! k =
        fix_step_next_c s (trip_val vgf v (?c # new) k) (trip_to_fix tfm vgf t (?c # new) k)"
      if "k < length (?c # new)" for k
    proof (cases k)
      case 0
      then show ?thesis by (simp add: trip_to_fix_0 trip_val_def)
    next
      case (Suc k')
      with that new(6) show ?thesis
        by (simp add: trip_to_fix_Suc trip_val_Suc)
    qed
    show ?thesis
    proof (intro exI[of _ "?c # new"] conjI)
      show "cs' = cs @ ?c # new" using new(1) by simp
      show "i' = i + length (?c # new)" using new(2) by simp
      show "i \<le> imax \<longrightarrow> i' \<le> imax" using new(3) lt by simp
      show "t' = trip_to_fix tfm vgf t (?c # new) (length (?c # new))"
        using new(4) by (simp add: trip_to_fix_Suc)
      show "v' = trip_val vgf v (?c # new) (length (?c # new))"
        using new(5) by (simp add: trip_val_Suc)
      show "\<forall>k<length (?c # new). (?c # new) ! k =
          fix_step_next_c s (trip_val vgf v (?c # new) k) (trip_to_fix tfm vgf t (?c # new) k)"
        using calls by blast
      show "\<not> fix_step_cond n imax i' t'" by (rule new(7))
      show "\<not> fix_step_cond n imax i t \<longrightarrow> ?c # new = []" using True by simp
    qed
  qed
qed

lemma fix_step_size_props:
  assumes "fix_step_size n tfm dt vgf val_c_input active s = (evals, val_c, fix_failed, calls)"
  shows "evals = length calls" "evals \<le> iter_max dt"
    "\<not> reduce_any n (to_fix_input tfm val_c_input active) \<Longrightarrow>
       calls = [] \<and> val_c = val_c_input"
    "\<forall>k<length calls. calls ! k =
        fix_step_next_c s (trip_val vgf val_c_input calls k)
          (trip_to_fix tfm vgf (to_fix_input tfm val_c_input active) calls k)"
    "fix_failed = trip_to_fix tfm vgf (to_fix_input tfm val_c_input active) calls (length calls)"
    "val_c = trip_val vgf val_c_input calls (length calls)"
    "evals < iter_max dt \<Longrightarrow> \<not> reduce_any n fix_failed"
proof -
  from assms have "fix_step_loop n tfm vgf s (iter_max dt)
      (0, val_c_input, to_fix_input tfm val_c_input active, []) =
      (evals, val_c, fix_failed, calls)"
    by (simp add: fix_step_size_def)
  from fix_step_loop_props[OF this] obtain new where
    new: "calls = [] @ new" "evals = 0 + length new"
      "0 \<le> iter_max dt \<longrightarrow> evals \<le> iter_max dt"
      "fix_failed = trip_to_fix tfm vgf (to_fix_input tfm val_c_input active) new (length new)"
      "val_c = trip_val vgf val_c_input new (length new)"
      "\<forall>k < length new. new ! k = fix_step_next_c s (trip_val vgf val_c_input new k)
          (trip_to_fix tfm vgf (to_fix_input tfm val_c_input active) new k)"
      "\<not> fix_step_cond n (iter_max dt) evals fix_failed"
      "\<not> fix_step_cond n (iter_max dt) 0 (to_fix_input tfm val_c_input active) \<longrightarrow> new = []"
    by blast
  from new(1) have c: "new = calls" by simp
  show "evals = length calls" using new(2) c by simp
  show "evals \<le> iter_max dt" using new(3) by simp
  show "calls = [] \<and> val_c = val_c_input"
    if "\<not> reduce_any n (to_fix_input tfm val_c_input active)"
    using that new(8) new(5) c by (simp add: fix_step_cond_def trip_val_def)
  show "\<forall>k<length calls. calls ! k =
        fix_step_next_c s (trip_val vgf val_c_input calls k)
          (trip_to_fix tfm vgf (to_fix_input tfm val_c_input active) calls k)"
    using new(6) c by simp
  show "fix_failed =
      trip_to_fix tfm vgf (to_fix_input tfm val_c_input active) calls (length calls)"
    using new(4) c by simp
  show "val_c = trip_val vgf val_c_input calls (length calls)" using new(5) c by simp
  show "\<not> reduce_any n fix_failed" if "evals < iter_max dt"
    using that new(7) by (simp add: fix_step_cond_def)
qed

text \<open>
  C7. The repair loop \<^verbatim>\<open>_fix_step_size\<close> returns \<open>(evals, val_c, fix_failed, calls)\<close>.
  It makes one oracle call per trip and at most \<open>ceil(-log2(machine epsilon))\<close> trips.
  When no active element has a non-finite initial evaluation it makes no call and
  returns its input. Otherwise the call of trip \<open>k\<close> passes, for every element still to
  fix, its current step times the shrink factor (and the current step of the others),
  and the elements reported in \<open>fix_failed\<close> are those to fix at the start that were not
  finite at any re-evaluation; the loop stops below the ceiling only when none is left.
  In \<^verbatim>\<open>hager_zhang\<close> every element of \<open>fix_failed\<close> is marked failed in the initial
  result, whose evaluation count adds the trips of the repair.
\<close>

theorem step_size_repair:
  "(case fix_step_size n tfm dt vgf val_c_input active s of
      (evals, val_c, fix_failed, calls) \<Rightarrow>
        evals = length calls \<and> evals \<le> iter_max dt \<and>
        iter_max dt = nat \<lceil>- log 2 (machine_eps dt)\<rceil> \<and>
        (\<not> reduce_any n (to_fix_input tfm val_c_input active) \<longrightarrow>
           calls = [] \<and> val_c = val_c_input) \<and>
        (\<forall>k<length calls. calls ! k =
           fix_step_next_c s (trip_val vgf val_c_input calls k)
             (trip_to_fix tfm vgf (to_fix_input tfm val_c_input active) calls k)) \<and>
        val_c = trip_val vgf val_c_input calls (length calls) \<and>
        fix_failed =
          trip_to_fix tfm vgf (to_fix_input tfm val_c_input active) calls (length calls) \<and>
        (evals < iter_max dt \<longrightarrow> \<not> reduce_any n fix_failed)) \<and>
   (case prepare_args vgf initial_step_size value_at_initial_step value_at_zero threshold of
      (val_0, val_initial, f_lim, prepare_evals, calls0) \<Rightarrow>
        (case fix_step_size n tfm dt vgf val_initial
                (\<lambda>i. \<not> init_converged converged_in i \<and> valid_inputs tfm val_0 val_initial i)
                s of
           (evals, val_c, fix_failed, calls) \<Rightarrow>
             (\<forall>i. fix_failed i \<longrightarrow>
                failed (fst (init_interval n tfm dt vgf initial_step_size value_at_initial_step
                  value_at_zero converged_in threshold s)) i) \<and>
             func_evals (fst (init_interval n tfm dt vgf initial_step_size
               value_at_initial_step value_at_zero converged_in threshold s)) =
               prepare_evals + evals))"
proof (rule conjI)
  obtain evals val_c fix_failed calls where
    r: "fix_step_size n tfm dt vgf val_c_input active s = (evals, val_c, fix_failed, calls)"
    by (cases "fix_step_size n tfm dt vgf val_c_input active s") auto
  note p = fix_step_size_props[OF r]
  show "case fix_step_size n tfm dt vgf val_c_input active s of
      (evals, val_c, fix_failed, calls) \<Rightarrow>
        evals = length calls \<and> evals \<le> iter_max dt \<and>
        iter_max dt = nat \<lceil>- log 2 (machine_eps dt)\<rceil> \<and>
        (\<not> reduce_any n (to_fix_input tfm val_c_input active) \<longrightarrow>
           calls = [] \<and> val_c = val_c_input) \<and>
        (\<forall>k<length calls. calls ! k =
           fix_step_next_c s (trip_val vgf val_c_input calls k)
             (trip_to_fix tfm vgf (to_fix_input tfm val_c_input active) calls k)) \<and>
        val_c = trip_val vgf val_c_input calls (length calls) \<and>
        fix_failed =
          trip_to_fix tfm vgf (to_fix_input tfm val_c_input active) calls (length calls) \<and>
        (evals < iter_max dt \<longrightarrow> \<not> reduce_any n fix_failed)"
    unfolding r prod.case
    using p(1,2,4,5,6) p(3) p(7) by (intro conjI impI) (simp_all add: iter_max_def)
next
  show "case prepare_args vgf initial_step_size value_at_initial_step value_at_zero threshold of
      (val_0, val_initial, f_lim, prepare_evals, calls0) \<Rightarrow>
        (case fix_step_size n tfm dt vgf val_initial
                (\<lambda>i. \<not> init_converged converged_in i \<and> valid_inputs tfm val_0 val_initial i)
                s of
           (evals, val_c, fix_failed, calls) \<Rightarrow>
             (\<forall>i. fix_failed i \<longrightarrow>
                failed (fst (init_interval n tfm dt vgf initial_step_size value_at_initial_step
                  value_at_zero converged_in threshold s)) i) \<and>
             func_evals (fst (init_interval n tfm dt vgf initial_step_size
               value_at_initial_step value_at_zero converged_in threshold s)) =
               prepare_evals + evals)"
    by (simp add: init_interval_def Let_def split: prod.splits)
qed

text \<open>
  Three runs of the repair: one with nothing to repair (no call); a batch of two whose
  second element is finite after one shrink (one call, \<open>[1, 100]\<close>, below the ceiling);
  and an element that is never finite, which uses the ten trips of \<open>float16\<close> and is
  marked failed.
\<close>

theorem step_size_repair_witness:
  "\<not> reduce_any 1 (to_fix_input tfm_fl (vgf_quad (\<lambda>i. Fin 1)) (\<lambda>i. True)) \<and>
   fst (fix_step_size 1 tfm_fl float32 vgf_quad (vgf_quad (\<lambda>i. Fin 1)) (\<lambda>i. True)
     (Fin (1 / 10))) = 0 \<and>
   reduce_any 2 (to_fix_input tfm_fl (vgf_quad (\<lambda>i. if i = 0 then Fin 1 else Fin 1000))
     (\<lambda>i. True)) \<and>
   (case fix_step_size 2 tfm_fl float32 vgf_quad
           (vgf_quad (\<lambda>i. if i = 0 then Fin 1 else Fin 1000)) (\<lambda>i. True) (Fin (1 / 10)) of
      (evals, val_c, fix_failed, calls) \<Rightarrow>
        evals = 1 \<and> length calls = 1 \<and> (calls ! 0) 0 = Fin 1 \<and> (calls ! 0) 1 = Fin 100 \<and>
        \<not> fix_failed 1 \<and> evals < iter_max float32) \<and>
   (case fix_step_size 1 tfm_fl float16 vgf_nan (vgf_nan (\<lambda>i. Fin 1)) (\<lambda>i. True)
           (Fin (1 / 10)) of
      (evals, val_c, fix_failed, calls) \<Rightarrow> evals = 10 \<and> length calls = 10 \<and> fix_failed 0) \<and>
   failed (fst (init_interval 1 tfm_fl float16 vgf_nan None
     (Some (vgf_nan (\<lambda>i. Fin 1))) (Some (const_val (Fin 0) (Fin 1) (Fin (- 1)))) None
     (Fin (1 / 1000000)) (Fin (1 / 10)))) 0"
  using step_size_repair [where n = 1 and tfm = tfm_fl and dt = float16 and vgf = vgf_nan
      and val_c_input = "vgf_nan (\<lambda>i. Fin 1)" and active = "\<lambda>i. True"
      and s = "Fin (1 / 10)" and initial_step_size = None
      and value_at_initial_step = "Some (vgf_nan (\<lambda>i. Fin 1))"
      and value_at_zero = "Some (const_val (Fin 0) (Fin 1) (Fin (- 1)))"
      and threshold = "Fin (1 / 1000000)" and converged_in = None]
  by (simp add: tfm_fl_def vgf_quad_def vgf_nan_def const_val_def hzl_is_finite_def tf_where_def
      val_where_def fl_ulp_def zero_fl_def one_fl_def fix_step_size_def fix_step_loop.simps
      fix_step_cond_def fix_step_next_c_def to_fix_input_def iter_max_simps Let_def
      init_interval_def prepare_args_def valid_inputs_def init_converged_def)

lemma fix_step_calls_at:
  assumes r: "fix_step_size n tfm dt vgf val_c_input active s = (evals, val_c, fix_failed, calls)"
    and echo: "oracle_echo vgf j"
    and k: "k < length calls"
  shows "(calls ! k) j =
     (if trip_to_fix tfm vgf (to_fix_input tfm val_c_input active) calls k j
      then (if k = 0 then x val_c_input j else (calls ! (k - 1)) j) * s
      else (if k = 0 then x val_c_input j else (calls ! (k - 1)) j))"
proof -
  from fix_step_size_props(4)[OF r] k
  have "calls ! k = fix_step_next_c s (trip_val vgf val_c_input calls k)
          (trip_to_fix tfm vgf (to_fix_input tfm val_c_input active) calls k)"
    by blast
  moreover have "x (trip_val vgf val_c_input calls k) j =
      (if k = 0 then x val_c_input j else (calls ! (k - 1)) j)"
    using echo by (simp add: trip_val_def oracle_echo_def)
  ultimately show ?thesis
    by (simp add: fix_step_next_c_def tf_where_def)
qed

lemma trip_to_fix_start: "trip_to_fix tfm vgf t calls k j \<Longrightarrow> t j"
  by (simp add: trip_to_fix_def)

text \<open>
  C8, as amended. In the repair loop, when the oracle returns the step it was called
  with: every step passed for element \<open>j\<close> is finite provided the initial step of \<open>j\<close> is
  finite and a finite step times the shrink factor is finite; and for an element that
  is not to be fixed every call passes its initial step unchanged, finite or not. The
  bisection passes the midpoint \<^verbatim>\<open>(left.x + right.x) / 2\<close> of every element as computed.
\<close>

theorem repair_steps_finite:
  assumes echo: "oracle_echo vgf j"
  shows "(case fix_step_size n tfm dt vgf val_c_input active s of
      (evals, val_c, fix_failed, calls) \<Rightarrow>
        (finite_product tfm s \<and> is_finite tfm (x val_c_input j) \<longrightarrow>
           (\<forall>c \<in> set calls. is_finite tfm (c j))) \<and>
        (\<not> to_fix_input tfm val_c_input active j \<longrightarrow>
           (\<forall>c \<in> set calls. c j = x val_c_input j))) \<and>
     snd (line_search_inner_bisection m tfm lib vgf search_interval needs f_lim) =
       [bisection_midpoint search_interval]"
proof -
  obtain evals val_c fix_failed calls where
    r: "fix_step_size n tfm dt vgf val_c_input active s = (evals, val_c, fix_failed, calls)"
    by (cases "fix_step_size n tfm dt vgf val_c_input active s") auto
  note at = fix_step_calls_at[OF r echo]
  have fin: "is_finite tfm ((calls ! k) j)"
    if fp: "finite_product tfm s" and f0: "is_finite tfm (x val_c_input j)"
      and k: "k < length calls" for k
    using k
  proof (induction k)
    case 0
    then show ?case using at[of 0] fp f0 by (simp add: finite_product_def)
  next
    case (Suc k)
    then have "is_finite tfm ((calls ! k) j)" by simp
    then show ?case using at[OF Suc.prems] fp by (simp add: finite_product_def)
  qed
  have same: "(calls ! k) j = x val_c_input j"
    if nf: "\<not> to_fix_input tfm val_c_input active j" and k: "k < length calls" for k
    using k
  proof (induction k)
    case 0
    then show ?case using at[of 0] nf trip_to_fix_start by fastforce
  next
    case (Suc k)
    then have "(calls ! k) j = x val_c_input j" by simp
    moreover have "\<not> trip_to_fix tfm vgf (to_fix_input tfm val_c_input active) calls (Suc k) j"
      using nf trip_to_fix_start by fastforce
    ultimately show ?case using at[OF Suc.prems] by simp
  qed
  have "case fix_step_size n tfm dt vgf val_c_input active s of
      (evals, val_c, fix_failed, calls) \<Rightarrow>
        (finite_product tfm s \<and> is_finite tfm (x val_c_input j) \<longrightarrow>
           (\<forall>c \<in> set calls. is_finite tfm (c j))) \<and>
        (\<not> to_fix_input tfm val_c_input active j \<longrightarrow>
           (\<forall>c \<in> set calls. c j = x val_c_input j))"
    unfolding r prod.case
    using fin same by (auto simp: in_set_conv_nth)
  then show ?thesis
    by (simp add: line_search_inner_bisection_def Let_def)
qed

lemma oracle_echo_quad: "oracle_echo vgf_quad j"
  by (simp add: oracle_echo_def vgf_quad_def)

lemma finite_product_fl: "finite_product tfm_fl (Fin r)"
  unfolding finite_product_def
proof (intro allI impI)
  fix a assume "is_finite tfm_fl a"
  then show "is_finite tfm_fl (a * Fin r)"
    by (cases a) (simp_all add: tfm_fl_def)
qed

text \<open>
  A batch of two: element \<open>1\<close> has the finite step \<open>1000\<close>, where the oracle is not finite,
  and is repaired with the call at \<open>100\<close>; element \<open>0\<close> is not under repair and its step,
  which is not finite, is passed unchanged.
\<close>

theorem repair_steps_finite_witness:
  "oracle_echo vgf_quad 1 \<and> finite_product tfm_fl (Fin (1 / 10)) \<and>
   is_finite tfm_fl (x (vgf_quad (\<lambda>i. if i = 0 then NaN else Fin 1000)) 1) \<and>
   to_fix_input tfm_fl (vgf_quad (\<lambda>i. if i = 0 then NaN else Fin 1000))
     (\<lambda>i. i = 1) 1 \<and>
   (case fix_step_size 2 tfm_fl float32 vgf_quad
           (vgf_quad (\<lambda>i. if i = 0 then NaN else Fin 1000)) (\<lambda>i. i = 1) (Fin (1 / 10)) of
      (evals, val_c, fix_failed, calls) \<Rightarrow>
        length calls = 1 \<and> is_finite tfm_fl ((calls ! 0) 1) \<and> (calls ! 0) 1 = Fin 100) \<and>
   oracle_echo vgf_quad 0 \<and>
   \<not> to_fix_input tfm_fl (vgf_quad (\<lambda>i. if i = 0 then NaN else Fin 1000))
     (\<lambda>i. i = 1) 0 \<and>
   (case fix_step_size 2 tfm_fl float32 vgf_quad
           (vgf_quad (\<lambda>i. if i = 0 then NaN else Fin 1000)) (\<lambda>i. i = 1) (Fin (1 / 10)) of
      (evals, val_c, fix_failed, calls) \<Rightarrow> (calls ! 0) 0 = NaN)"
  using repair_steps_finite [OF oracle_echo_quad, where j = 1 and n = 2 and tfm = tfm_fl
      and dt = float32 and val_c_input = "vgf_quad (\<lambda>i. if i = 0 then NaN else Fin 1000)"
      and active = "\<lambda>i. i = 1" and s = "Fin (1 / 10)"]
    oracle_echo_quad finite_product_fl
  by (simp add: tfm_fl_def vgf_quad_def hzl_is_finite_def tf_where_def fl_ulp_def zero_fl_def
      one_fl_def fix_step_size_def fix_step_loop.simps fix_step_cond_def fix_step_next_c_def
      to_fix_input_def iter_max_simps Let_def)

text \<open>
  C8 as stated fails: in a batch of two whose element \<open>0\<close> has a non-finite initial step
  (an invalid input, marked failed) and whose element \<open>1\<close> needs repair, the one call of
  the repair loop passes the non-finite step of element \<open>0\<close> to the oracle.
\<close>

theorem oracle_called_with_non_finite_step:
  "(case init_interval 2 tfm_fl float32 vgf_quad None
          (Some (vgf_quad (\<lambda>i. if i = 0 then NaN else Fin 1000)))
          (Some (const_val (Fin 0) (Fin (169 / 100)) (Fin (- (26 / 10))))) None
          (Fin (1 / 1000000)) (Fin (1 / 10)) of
      (init, f_lim, calls) \<Rightarrow>
        length calls = 1 \<and> \<not> is_finite tfm_fl ((calls ! 0) 0) \<and> failed init 0 \<and>
        \<not> failed init 1 \<and> \<not> converged init 1)"
  by (simp add: tfm_fl_def vgf_quad_def const_val_def hzl_is_finite_def tf_where_def
      val_where_def fl_ulp_def zero_fl_def one_fl_def fix_step_size_def fix_step_loop.simps
      fix_step_cond_def fix_step_next_c_def to_fix_input_def iter_max_simps Let_def
      init_interval_def prepare_args_def valid_inputs_def init_converged_def)

section \<open>Frozen elements\<close>

lemma latched_at_refl: "latched_at a a i"
  by (simp add: latched_at_def)

lemma latched_at_trans: "latched_at a b i \<Longrightarrow> latched_at b c i \<Longrightarrow> latched_at a c i"
  by (simp add: latched_at_def)

lemma latched_at_frozen:
  "latched_at a b i \<Longrightarrow> converged a i \<or> failed a i \<Longrightarrow> converged b i \<or> failed b i"
  by (auto simp: latched_at_def)

text \<open>The bisection and the shrinkage check leave an element outside their mask alone.\<close>

lemma inner_bisection_outside_mask:
  assumes "update_contract n lib" "i < n" "\<not> active i"
  shows "latched_at st (fst (line_search_inner_bisection n tfm lib vgf st active f_lim)) i"
  using assms
  by (simp add: line_search_inner_bisection_def Let_def latched_at_def update_contract_def)

lemma do_check_shrinkage_outside_mask:
  assumes "update_contract n lib" "i < n" "\<not> chk i"
  shows "latched_at sec (fst (do_check_shrinkage n tfm lib vgf f_lim sp cur sec chk)) i"
proof -
  let ?args = "sec\<lparr>converged := (\<lambda>i. converged sec i \<or> new_converged tfm sp cur sec chk i)\<rparr>"
  have a: "latched_at sec ?args i"
    using assms(3) by (simp add: latched_at_def new_converged_def)
  have "\<not> needs_inner_bisect sp cur sec chk i"
    using assms(3) by (simp add: needs_inner_bisect_def)
  from inner_bisection_outside_mask[where active = "needs_inner_bisect sp cur sec chk",
      OF assms(1,2) this]
  have "latched_at ?args (fst (line_search_inner_bisection n tfm lib vgf ?args
      (needs_inner_bisect sp cur sec chk) f_lim)) i" .
  from latched_at_trans[OF a this] a show ?thesis
    by (simp add: do_check_shrinkage_def Let_def)
qed

lemma secant2_step_frozen:
  assumes "secant2_contract n lib" "i < n" "converged st i \<or> failed st i"
  shows "latched_at st (secant2_step lib vgf val_0 f_lim sdp cp st) i"
  using assms by (simp add: secant2_step_def Let_def latched_at_def secant2_contract_def)

lemma loop_body_frozen:
  assumes sc: "secant2_contract n lib" and uc: "update_contract n lib"
    and i: "i < n" and fr: "converged st i \<or> failed st i"
  shows "latched_at st (fst (loop_body n tfm lib vgf val_0 f_lim sdp cp sp st)) i"
proof -
  let ?sec = "secant2_step lib vgf val_0 f_lim sdp cp st"
  let ?chk = "should_check_shrinkage ?sec"
  let ?next = "fst (if reduce_any n ?chk
       then do_check_shrinkage n tfm lib vgf f_lim sp st ?sec ?chk else (?sec, []))"
  have s: "latched_at st ?sec i" by (rule secant2_step_frozen[OF sc i fr])
  from latched_at_frozen[OF s fr] have nchk: "\<not> ?chk i"
    by (simp add: should_check_shrinkage_def)
  have "latched_at ?sec ?next i"
    using do_check_shrinkage_outside_mask[where chk = ?chk, OF uc i nchk]
    by (simp add: latched_at_refl)
  from latched_at_trans[OF s this] have n: "latched_at st ?next i" .
  have "fst (loop_body n tfm lib vgf val_0 f_lim sdp cp sp st) =
      ?next\<lparr>converged := (\<lambda>i. converged ?next i \<or>
        (\<not> failed ?next i \<and> very_close (nextafter tfm) (x (left ?next)) (x (right ?next)) i))\<rparr>"
    by (simp add: loop_body_def Let_def split: prod.splits)
  with n show ?thesis
    by (simp add: latched_at_def)
qed

lemma loop_trips_frozen:
  assumes sc: "secant2_contract n lib" and uc: "update_contract n lib" and i: "i < n"
  shows "converged st i \<or> failed st i \<Longrightarrow>
    latched_at st (loop_trips n tfm lib vgf val_0 f_lim mi sdp cp sp k st) i"
proof (induction k arbitrary: st)
  case 0
  show ?case by (simp add: latched_at_refl)
next
  case (Suc k)
  let ?st1 = "fst (loop_body n tfm lib vgf val_0 f_lim sdp cp sp st)"
  have 1: "latched_at st ?st1 i" by (rule loop_body_frozen[OF sc uc i Suc.prems])
  from Suc.IH[OF latched_at_frozen[OF 1 Suc.prems]] 1 show ?case
    by (auto simp: latched_at_refl intro: latched_at_trans)
qed

lemma line_search_loop_frozen:
  assumes sc: "secant2_contract n lib" and uc: "update_contract n lib" and i: "i < n"
  shows "converged st i \<or> failed st i \<Longrightarrow>
    latched_at st (fst (line_search_loop n tfm lib vgf val_0 f_lim mi sdp cp sp (st, calls))) i"
  using sc uc i
proof (induction n tfm lib vgf val_0 f_lim mi sdp cp sp "(st, calls)" arbitrary: st calls
    rule: line_search_loop.induct)
  case (1 n tfm lib vgf val_0 f_lim mi sdp cp sp st calls)
  show ?case
  proof (cases "loop_cond n mi st")
    case False
    then show ?thesis
      by (simp add: line_search_loop.simps[of n tfm lib vgf val_0 f_lim mi sdp cp sp st calls]
          latched_at_refl)
  next
    case True
    let ?st1 = "fst (loop_body n tfm lib vgf val_0 f_lim sdp cp sp st)"
    have s1: "latched_at st ?st1 i" by (rule loop_body_frozen[OF "1.prems"(2,3,4,1)])
    have "latched_at ?st1 (fst (line_search_loop n tfm lib vgf val_0 f_lim mi sdp cp sp
        (?st1, calls @ snd (loop_body n tfm lib vgf val_0 f_lim sdp cp sp st)))) i"
      by (rule "1.hyps"[OF True latched_at_frozen[OF s1 "1.prems"(1)] "1.prems"(2,3,4)])
    from latched_at_trans[OF s1 this] True show ?thesis
      by (simp add: line_search_loop.simps[of n tfm lib vgf val_0 f_lim mi sdp cp sp st calls])
  qed
qed

lemma line_search_args_frozen:
  assumes bc: "bracket_contract n lib" and i: "i < n"
    and fr: "converged init i \<or> failed init i"
  shows "latched_at init
     (line_search_args tfm mi init (bracket lib vgf init f_lim mi ep)) i"
  using assms by (auto simp: line_search_args_def Let_def bracket_contract_def latched_at_def)

lemma bracket_and_search_frozen:
  assumes sc: "secant2_contract n lib" and uc: "update_contract n lib"
    and bc: "bracket_contract n lib" and i: "i < n"
    and fr: "converged init i \<or> failed init i"
  shows "latched_at init
     (fst (bracket_and_search n tfm lib vgf init f_lim mi sp ep sdp cp)) i"
proof -
  let ?args = "line_search_args tfm mi init (bracket lib vgf init f_lim mi ep)"
  have a: "latched_at init ?args i" by (rule line_search_args_frozen[OF bc i fr])
  have "latched_at ?args (fst (line_search_loop n tfm lib vgf (left init) f_lim mi sdp cp sp
      (?args, []))) i"
    by (rule line_search_loop_frozen[OF sc uc i latched_at_frozen[OF a fr]])
  from latched_at_trans[OF a this] show ?thesis
    by (simp add: bracket_and_search_def line_search_after_bracketing_def Let_def)
qed

text \<open>
  C5. Monotonic latch, given the masked-application contract of the interval primitives.
  For an element \<open>i\<close> of the batch that has converged or failed in a state of the search
  loop, in the state after any number \<open>k\<close> of further trips and in the final result of
  the loop each of the flags \<^verbatim>\<open>converged\<close> and \<^verbatim>\<open>failed\<close> that was set is set, and \<^verbatim>\<open>left\<close>
  and \<^verbatim>\<open>right\<close> of that element are the same. The same holds from the initial result of
  \<^verbatim>\<open>hager_zhang\<close>, where an element converges or fails by the input mask, the validation
  or the repair, to the returned result.
\<close>

theorem monotonic_latch:
  assumes sc: "secant2_contract n lib" and uc: "update_contract n lib"
    and bc: "bracket_contract n lib" and i: "i < n"
  shows "(converged st i \<or> failed st i \<longrightarrow>
            latched_at st (loop_trips n tfm lib vgf val_0 f_lim mi sdp cp sp k st) i \<and>
            latched_at st (fst (line_search_loop n tfm lib vgf val_0 f_lim mi sdp cp sp
              (st, calls))) i) \<and>
         (case init_interval n tfm dt vgf iss vis vz cin thr s of
            (init, f_lim0, calls0) \<Rightarrow>
              converged init i \<or> failed init i \<longrightarrow>
              latched_at init
                (fst (hager_zhang n tfm lib dt vgf iss vis vz cin thr sp ep sdp cp s mi)) i)"
proof (rule conjI)
  show "converged st i \<or> failed st i \<longrightarrow>
      latched_at st (loop_trips n tfm lib vgf val_0 f_lim mi sdp cp sp k st) i \<and>
      latched_at st (fst (line_search_loop n tfm lib vgf val_0 f_lim mi sdp cp sp
        (st, calls))) i"
    using loop_trips_frozen[OF sc uc i] line_search_loop_frozen[OF sc uc i] by blast
next
  obtain init f_lim0 calls0 where
    ii: "init_interval n tfm dt vgf iss vis vz cin thr s = (init, f_lim0, calls0)"
    by (cases "init_interval n tfm dt vgf iss vis vz cin thr s") auto
  let ?res = "fst (hager_zhang n tfm lib dt vgf iss vis vz cin thr sp ep sdp cp s mi)"
  have "latched_at init ?res i" if fr: "converged init i \<or> failed init i"
  proof (cases "reduce_any n (\<lambda>i. \<not> failed init i \<and> \<not> converged init i)")
    case False
    then show ?thesis by (simp add: hager_zhang_def ii latched_at_refl)
  next
    case True
    then have "?res = fst (bracket_and_search n tfm lib vgf init f_lim0 mi sp ep sdp cp)"
      by (simp add: hager_zhang_def ii split: prod.splits)
    with bracket_and_search_frozen[OF sc uc bc i fr, of tfm vgf f_lim0 mi sp ep sdp cp]
    show ?thesis by simp
  qed
  then show "case init_interval n tfm dt vgf iss vis vz cin thr s of
      (init, f_lim0, calls0) \<Rightarrow>
        converged init i \<or> failed init i \<longrightarrow> latched_at init ?res i"
    unfolding ii prod.case by blast
qed

text \<open>
  A batch of three with the bisecting primitives and a budget of one iteration:
  element \<open>0\<close> is pre-converged, element \<open>1\<close> is searched, and element \<open>2\<close> fails the
  validation. Elements \<open>0\<close> and \<open>2\<close> keep their flags and end points while the bracket of
  element \<open>1\<close> moves from \<open>[0, 10]\<close> to \<open>[0, 5]\<close>.
\<close>

theorem monotonic_latch_witness:
  "secant2_contract 3 lib_bisect \<and> update_contract 3 lib_bisect \<and>
   bracket_contract 3 lib_bisect \<and> (0::nat) < 3 \<and> converged st_latch 0 \<and>
   latched_at st_latch (loop_trips 3 tfm_fl lib_bisect vgf_quad (vgf_quad (\<lambda>i. Fin 0))
     (\<lambda>i. Fin 2) 1 (Fin (1 / 10)) (Fin (9 / 10)) (Fin (66 / 100)) (Suc (Suc 0)) st_latch) 0 \<and>
   latched_at st_latch (fst (line_search_loop 3 tfm_fl lib_bisect vgf_quad
     (vgf_quad (\<lambda>i. Fin 0)) (\<lambda>i. Fin 2) 1 (Fin (1 / 10)) (Fin (9 / 10)) (Fin (66 / 100))
     (st_latch, []))) 0 \<and>
   x (right (loop_trips 3 tfm_fl lib_bisect vgf_quad (vgf_quad (\<lambda>i. Fin 0))
     (\<lambda>i. Fin 2) 1 (Fin (1 / 10)) (Fin (9 / 10)) (Fin (66 / 100)) (Suc (Suc 0)) st_latch)) 1 =
     Fin 5 \<and>
   (case init_interval 3 tfm_fl float32 vgf_quad None (Some (vgf_quad (\<lambda>i. Fin 10)))
           (Some val_0_fl) (Some (\<lambda>i. i = 0)) (Fin (1 / 1000000)) (Fin (1 / 10)) of
      (init, f_lim0, calls0) \<Rightarrow>
        converged init 0 \<and> failed init 2 \<and> \<not> converged init 1 \<and> \<not> failed init 1 \<and>
        x (right init) 0 = Fin 0 \<and> x (right init) 2 = Fin 10) \<and>
   converged (fst (hager_zhang 3 tfm_fl lib_bisect float32 vgf_quad None
     (Some (vgf_quad (\<lambda>i. Fin 10))) (Some val_0_fl) (Some (\<lambda>i. i = 0)) (Fin (1 / 1000000))
     (Fin (66 / 100)) (Fin 5) (Fin (1 / 10)) (Fin (9 / 10)) (Fin (1 / 10)) 1)) 0 \<and>
   failed (fst (hager_zhang 3 tfm_fl lib_bisect float32 vgf_quad None
     (Some (vgf_quad (\<lambda>i. Fin 10))) (Some val_0_fl) (Some (\<lambda>i. i = 0)) (Fin (1 / 1000000))
     (Fin (66 / 100)) (Fin 5) (Fin (1 / 10)) (Fin (9 / 10)) (Fin (1 / 10)) 1)) 2 \<and>
   x (right (fst (hager_zhang 3 tfm_fl lib_bisect float32 vgf_quad None
     (Some (vgf_quad (\<lambda>i. Fin 10))) (Some val_0_fl) (Some (\<lambda>i. i = 0)) (Fin (1 / 1000000))
     (Fin (66 / 100)) (Fin 5) (Fin (1 / 10)) (Fin (9 / 10)) (Fin (1 / 10)) 1))) 2 = Fin 10 \<and>
   x (right (fst (hager_zhang 3 tfm_fl lib_bisect float32 vgf_quad None
     (Some (vgf_quad (\<lambda>i. Fin 10))) (Some val_0_fl) (Some (\<lambda>i. i = 0)) (Fin (1 / 1000000))
     (Fin (66 / 100)) (Fin 5) (Fin (1 / 10)) (Fin (9 / 10)) (Fin (1 / 10)) 1))) 1 =
     Fin 5"
  using monotonic_latch [OF lib_bisect_contracts, where n = 3 and i = 0
      and st = st_latch
      and tfm = tfm_fl and vgf = vgf_quad and ?val_0.0 = "vgf_quad (\<lambda>i. Fin 0)"
      and f_lim = "\<lambda>i. Fin 2" and mi = 1 and sdp = "Fin (1 / 10)" and cp = "Fin (9 / 10)"
      and sp = "Fin (66 / 100)" and k = "Suc (Suc 0)" and calls = "[]" and dt = float32
      and iss = None and vis = "Some (vgf_quad (\<lambda>i. Fin 10))" and vz = "Some val_0_fl"
      and cin = "Some (\<lambda>i. i = 0)" and thr = "Fin (1 / 1000000)" and s = "Fin (1 / 10)"
      and ep = "Fin 5"]
    lib_bisect_contracts [of 3]
  by (simp add: tfm_fl_def vgf_quad_def hzl_is_finite_def tf_where_def val_where_def
      very_close_def fl_ulp_def val_at_def zero_fl_def one_fl_def fix_step_size_def
      fix_step_loop.simps fix_step_cond_def fix_step_next_c_def to_fix_input_def iter_max_simps
      Let_def lib_bisect_def bracket_id_def secant2_id_def update_right_def val_0_fl_def
      st_latch_def loop_body_def do_check_shrinkage_def line_search_inner_bisection_def
      secant2_step_def should_check_shrinkage_def sufficient_shrinkage_def func_is_flat_def
      new_converged_def needs_inner_bisect_def bisection_midpoint_def loop_cond_def
      line_search_loop.simps line_search_after_bracketing_def bracket_and_search_def
      line_search_args_def hager_zhang_def init_interval_def prepare_args_def valid_inputs_def
      init_converged_def latched_at_def)

section \<open>One trip of the search loop\<close>

lemma reduce_anyI: "i < n \<Longrightarrow> m i \<Longrightarrow> reduce_any n m"
  by (auto simp: reduce_any_iff)

lemma bisect_mask_check:
  "reduce_any n (bisect_mask sp st sec) \<Longrightarrow> reduce_any n (should_check_shrinkage sec)"
  by (auto simp: reduce_any_iff bisect_mask_def needs_inner_bisect_def)

text \<open>The two results of a trip, with the branch on the shrinkage check still to take.\<close>

lemma loop_body_next_args:
  "fst (loop_body n tfm lib vgf val_0 f_lim sdp cp sp st) =
     (let sec = secant2_step lib vgf val_0 f_lim sdp cp st;
          next_args = fst (if reduce_any n (should_check_shrinkage sec)
            then do_check_shrinkage n tfm lib vgf f_lim sp st sec (should_check_shrinkage sec)
            else (sec, []))
      in next_args\<lparr>converged := (\<lambda>i. converged next_args i \<or>
           (\<not> failed next_args i \<and>
            very_close (nextafter tfm) (x (left next_args)) (x (right next_args)) i))\<rparr>)"
  "snd (loop_body n tfm lib vgf val_0 f_lim sdp cp sp st) =
     (let sec = secant2_step lib vgf val_0 f_lim sdp cp st
      in snd (if reduce_any n (should_check_shrinkage sec)
            then do_check_shrinkage n tfm lib vgf f_lim sp st sec (should_check_shrinkage sec)
            else (sec, [])))"
  by (simp_all add: loop_body_def Let_def split: prod.splits)

text \<open>A trip in which some element needs the bisection, and one in which none does.\<close>

lemma loop_body_bisects:
  assumes "reduce_any n (bisect_mask sp st (secant2_step lib vgf val_0 f_lim sdp cp st))"
  shows "loop_body n tfm lib vgf val_0 f_lim sdp cp sp st =
    (let sec = secant2_step lib vgf val_0 f_lim sdp cp st;
         args = sec\<lparr>converged := (\<lambda>i. converged sec i \<or>
           new_converged tfm sp st sec (should_check_shrinkage sec) i)\<rparr>;
         next_args = fst (line_search_inner_bisection n tfm lib vgf args
           (bisect_mask sp st sec) f_lim)
     in (next_args\<lparr>converged := (\<lambda>i. converged next_args i \<or>
           (\<not> failed next_args i \<and>
            very_close (nextafter tfm) (x (left next_args)) (x (right next_args)) i))\<rparr>,
         [bisection_midpoint sec]))"
  using assms bisect_mask_check[OF assms]
  by (simp add: loop_body_def do_check_shrinkage_def Let_def bisect_mask_def
      line_search_inner_bisection_def bisection_midpoint_def split: prod.splits)

lemma loop_body_no_bisect:
  assumes "\<not> reduce_any n (bisect_mask sp st (secant2_step lib vgf val_0 f_lim sdp cp st))"
  shows "loop_body n tfm lib vgf val_0 f_lim sdp cp sp st =
    (let sec = secant2_step lib vgf val_0 f_lim sdp cp st;
         next_args = sec\<lparr>converged := (\<lambda>i. converged sec i \<or>
           (reduce_any n (should_check_shrinkage sec) \<and>
            new_converged tfm sp st sec (should_check_shrinkage sec) i))\<rparr>
     in (next_args\<lparr>converged := (\<lambda>i. converged next_args i \<or>
           (\<not> failed next_args i \<and>
            very_close (nextafter tfm) (x (left next_args)) (x (right next_args)) i))\<rparr>,
         []))"
  using assms
  by (cases "reduce_any n (should_check_shrinkage (secant2_step lib vgf val_0 f_lim sdp cp st))")
    (simp_all add: loop_body_def do_check_shrinkage_def Let_def bisect_mask_def)



text \<open>
  C1, as amended. After the secant2 step of a trip, for an element \<open>i\<close> of the batch that
  neither converged nor failed in that step: if the new width is below
  \<^verbatim>\<open>shrinkage_param\<close> times the old width the element is not bisected, and if moreover the
  function is flat on the old and on the new interval it is marked converged; if the
  width did not shrink that much, flat or not, the trip makes its one oracle call, at
  the midpoints, the element is marked failed when its midpoint evaluation is not
  finite, and otherwise \<^verbatim>\<open>hzl.update\<close> is applied with the element in its mask and gives
  the next bracket. The trip makes no oracle call exactly when no element needs the
  bisection.
\<close>

theorem shrinkage_check_law:
  assumes i: "i < n"
    and chk: "should_check_shrinkage (secant2_step lib vgf val_0 f_lim sdp cp st) i"
  shows "let sec = secant2_step lib vgf val_0 f_lim sdp cp st;
             upd = bisect_update tfm lib vgf f_lim sp st sec;
             trip = loop_body n tfm lib vgf val_0 f_lim sdp cp sp st
         in (sufficient_shrinkage sp st sec i \<longrightarrow>
               \<not> bisect_mask sp st sec i \<and>
               (func_is_flat tfm st sec i \<longrightarrow> converged (fst trip) i)) \<and>
            (\<not> sufficient_shrinkage sp st sec i \<longrightarrow>
               bisect_mask sp st sec i \<and> snd trip = [bisection_midpoint sec] \<and>
               (\<not> hzl_is_finite (is_finite tfm) (bisect_val_mid vgf sec) i \<longrightarrow>
                  failed (fst trip) i) \<and>
               (hzl_is_finite (is_finite tfm) (bisect_val_mid vgf sec) i \<longrightarrow>
                  bisect_still_active tfm vgf sp st sec i \<and>
                  left (fst trip) = up_left upd \<and> right (fst trip) = up_right upd)) \<and>
            (snd trip = [] \<longleftrightarrow> \<not> reduce_any n (bisect_mask sp st sec))"
proof -
  let ?sec = "secant2_step lib vgf val_0 f_lim sdp cp st"
  have any_chk: "reduce_any n (should_check_shrinkage ?sec)"
    using i chk by (rule reduce_anyI)
  show ?thesis
  proof (cases "reduce_any n (bisect_mask sp st ?sec)")
    case False
    then have "\<not> bisect_mask sp st ?sec i"
      using i by (auto simp: reduce_any_iff)
    then have suff: "sufficient_shrinkage sp st ?sec i"
      using chk by (simp add: bisect_mask_def needs_inner_bisect_def)
    show ?thesis
      unfolding loop_body_no_bisect[OF False]
      using False suff chk any_chk
      by (simp add: Let_def bisect_mask_def needs_inner_bisect_def new_converged_def)
  next
    case True
    have act: "reduce_any n (bisect_still_active tfm vgf sp st ?sec)"
      if "bisect_still_active tfm vgf sp st ?sec i"
      using i that by (rule reduce_anyI)
    show ?thesis
      unfolding loop_body_bisects[OF True]
      using True chk act
      by (auto simp: Let_def bisect_mask_def needs_inner_bisect_def new_converged_def
          line_search_inner_bisection_def bisect_still_active_def bisect_update_def
          bisect_val_mid_def bisection_midpoint_def)
  qed
qed

text \<open>
  Three trips of one element: on the flat function the narrowing secant2 shrinks
  \<open>[0, 10]\<close> to \<open>[1, 3]\<close> and the element converges with no oracle call; on the quadratic
  a secant2 step without progress is followed by the bisection at \<open>5\<close>, which becomes the
  right end; and on \<open>[0, 400]\<close> the midpoint evaluation is not finite and the element
  fails.
\<close>

theorem shrinkage_check_law_witness:
  "(0::nat) < 1 \<and>
   should_check_shrinkage (secant2_step lib_narrow vgf_flat (vgf_flat (\<lambda>i. Fin 0))
     (\<lambda>i. Fin 6) (Fin (1 / 10)) (Fin (9 / 10)) st_flat) 0 \<and>
   sufficient_shrinkage (Fin (66 / 100)) st_flat (secant2_step lib_narrow vgf_flat
     (vgf_flat (\<lambda>i. Fin 0)) (\<lambda>i. Fin 6) (Fin (1 / 10)) (Fin (9 / 10)) st_flat) 0 \<and>
   func_is_flat tfm_fl st_flat (secant2_step lib_narrow vgf_flat
     (vgf_flat (\<lambda>i. Fin 0)) (\<lambda>i. Fin 6) (Fin (1 / 10)) (Fin (9 / 10)) st_flat) 0 \<and>
   converged (fst (loop_body 1 tfm_fl lib_narrow vgf_flat (vgf_flat (\<lambda>i. Fin 0)) (\<lambda>i. Fin 6)
     (Fin (1 / 10)) (Fin (9 / 10)) (Fin (66 / 100)) st_flat)) 0 \<and>
   snd (loop_body 1 tfm_fl lib_narrow vgf_flat (vgf_flat (\<lambda>i. Fin 0)) (\<lambda>i. Fin 6)
     (Fin (1 / 10)) (Fin (9 / 10)) (Fin (66 / 100)) st_flat) = [] \<and>
   should_check_shrinkage (secant2_step lib_bisect vgf_quad (vgf_quad (\<lambda>i. Fin 0))
     (\<lambda>i. Fin 2) (Fin (1 / 10)) (Fin (9 / 10)) st_quad) 0 \<and>
   \<not> sufficient_shrinkage (Fin (66 / 100)) st_quad (secant2_step lib_bisect vgf_quad
     (vgf_quad (\<lambda>i. Fin 0)) (\<lambda>i. Fin 2) (Fin (1 / 10)) (Fin (9 / 10)) st_quad) 0 \<and>
   hzl_is_finite (is_finite tfm_fl) (bisect_val_mid vgf_quad (secant2_step lib_bisect vgf_quad
     (vgf_quad (\<lambda>i. Fin 0)) (\<lambda>i. Fin 2) (Fin (1 / 10)) (Fin (9 / 10)) st_quad)) 0 \<and>
   length (snd (loop_body 1 tfm_fl lib_bisect vgf_quad (vgf_quad (\<lambda>i. Fin 0)) (\<lambda>i. Fin 2)
     (Fin (1 / 10)) (Fin (9 / 10)) (Fin (66 / 100)) st_quad)) = 1 \<and>
   x (right (fst (loop_body 1 tfm_fl lib_bisect vgf_quad (vgf_quad (\<lambda>i. Fin 0)) (\<lambda>i. Fin 2)
     (Fin (1 / 10)) (Fin (9 / 10)) (Fin (66 / 100)) st_quad))) 0 = Fin 5 \<and>
   should_check_shrinkage (secant2_step lib_bisect vgf_quad (vgf_quad (\<lambda>i. Fin 0))
     (\<lambda>i. Fin 2) (Fin (1 / 10)) (Fin (9 / 10)) st_wide) 0 \<and>
   \<not> sufficient_shrinkage (Fin (66 / 100)) st_wide (secant2_step lib_bisect vgf_quad
     (vgf_quad (\<lambda>i. Fin 0)) (\<lambda>i. Fin 2) (Fin (1 / 10)) (Fin (9 / 10)) st_wide) 0 \<and>
   \<not> hzl_is_finite (is_finite tfm_fl) (bisect_val_mid vgf_quad (secant2_step lib_bisect
     vgf_quad (vgf_quad (\<lambda>i. Fin 0)) (\<lambda>i. Fin 2) (Fin (1 / 10)) (Fin (9 / 10)) st_wide)) 0 \<and>
   failed (fst (loop_body 1 tfm_fl lib_bisect vgf_quad (vgf_quad (\<lambda>i. Fin 0)) (\<lambda>i. Fin 2)
     (Fin (1 / 10)) (Fin (9 / 10)) (Fin (66 / 100)) st_wide)) 0"
  using shrinkage_check_law [where n = 1 and i = 0 and tfm = tfm_fl and lib = lib_narrow
      and vgf = vgf_flat and ?val_0.0 = "vgf_flat (\<lambda>i. Fin 0)" and f_lim = "\<lambda>i. Fin 6"
      and sdp = "Fin (1 / 10)" and cp = "Fin (9 / 10)" and sp = "Fin (66 / 100)"
      and st = st_flat]
    shrinkage_check_law [where n = 1 and i = 0 and tfm = tfm_fl and lib = lib_bisect
      and vgf = vgf_quad and ?val_0.0 = "vgf_quad (\<lambda>i. Fin 0)" and f_lim = "\<lambda>i. Fin 2"
      and sdp = "Fin (1 / 10)" and cp = "Fin (9 / 10)" and sp = "Fin (66 / 100)"
      and st = st_wide]
  by (simp add: tfm_fl_def vgf_quad_def vgf_flat_def const_val_def hzl_is_finite_def
      tf_where_def val_where_def very_close_def fl_ulp_def zero_fl_def one_fl_def Let_def
      lib_bisect_def lib_narrow_def bracket_id_def secant2_id_def secant2_narrow_def
      update_right_def st_flat_def st_quad_def st_wide_def loop_body_def do_check_shrinkage_def
      line_search_inner_bisection_def secant2_step_def should_check_shrinkage_def
      sufficient_shrinkage_def func_is_flat_def new_converged_def needs_inner_bisect_def
      bisection_midpoint_def bisect_val_mid_def)

text \<open>
  C1 as stated fails: on the flat function, after a secant2 step that does not shrink
  \<open>[0, 10]\<close>, the element is under-shrunk and flat on both intervals, and the trip
  evaluates the oracle at the midpoint \<open>5\<close> and does not mark the element converged.
\<close>

theorem under_shrunk_flat_is_bisected:
  "should_check_shrinkage (secant2_step lib_bisect vgf_flat (vgf_flat (\<lambda>i. Fin 0))
     (\<lambda>i. Fin 6) (Fin (1 / 10)) (Fin (9 / 10)) st_flat) 0 \<and>
   \<not> sufficient_shrinkage (Fin (66 / 100)) st_flat (secant2_step lib_bisect vgf_flat
     (vgf_flat (\<lambda>i. Fin 0)) (\<lambda>i. Fin 6) (Fin (1 / 10)) (Fin (9 / 10)) st_flat) 0 \<and>
   func_is_flat tfm_fl st_flat (secant2_step lib_bisect vgf_flat
     (vgf_flat (\<lambda>i. Fin 0)) (\<lambda>i. Fin 6) (Fin (1 / 10)) (Fin (9 / 10)) st_flat) 0 \<and>
   length (snd (loop_body 1 tfm_fl lib_bisect vgf_flat (vgf_flat (\<lambda>i. Fin 0)) (\<lambda>i. Fin 6)
     (Fin (1 / 10)) (Fin (9 / 10)) (Fin (66 / 100)) st_flat)) = 1 \<and>
   (snd (loop_body 1 tfm_fl lib_bisect vgf_flat (vgf_flat (\<lambda>i. Fin 0)) (\<lambda>i. Fin 6)
     (Fin (1 / 10)) (Fin (9 / 10)) (Fin (66 / 100)) st_flat) ! 0) 0 = Fin 5 \<and>
   \<not> converged (fst (loop_body 1 tfm_fl lib_bisect vgf_flat (vgf_flat (\<lambda>i. Fin 0)) (\<lambda>i. Fin 6)
     (Fin (1 / 10)) (Fin (9 / 10)) (Fin (66 / 100)) st_flat)) 0 \<and>
   func_evals (fst (loop_body 1 tfm_fl lib_bisect vgf_flat (vgf_flat (\<lambda>i. Fin 0)) (\<lambda>i. Fin 6)
     (Fin (1 / 10)) (Fin (9 / 10)) (Fin (66 / 100)) st_flat)) = func_evals st_flat + 1"
  by (simp add: tfm_fl_def vgf_flat_def hzl_is_finite_def tf_where_def val_where_def
      very_close_def fl_ulp_def zero_fl_def one_fl_def Let_def lib_bisect_def bracket_id_def
      secant2_id_def update_right_def st_flat_def loop_body_def do_check_shrinkage_def
      line_search_inner_bisection_def secant2_step_def should_check_shrinkage_def
      sufficient_shrinkage_def func_is_flat_def new_converged_def needs_inner_bisect_def
      bisection_midpoint_def)

section \<open>Pre-converged elements\<close>







section \<open>Runs that differ from the documented behaviour\<close>

text \<open>
  C2. With \<^verbatim>\<open>max_iterations = 1\<close>, a bracket found in no iteration and a secant2 step
  that narrows \<open>[0, 10]\<close> to \<open>[1, 3]\<close> without converging, the loop stops after its one trip
  because the budget is used up, and the element is returned neither converged nor
  failed: only \<^verbatim>\<open>_bracket_and_search\<close> marks exhaustion, before the loop, as the run with
  \<^verbatim>\<open>max_iterations = 0\<close> shows.
\<close>

theorem exhausted_in_loop_not_failed:
  "iterations (fst (hager_zhang 1 tfm_fl lib_narrow float32 vgf_quad None
     (Some (vgf_quad (\<lambda>i. Fin 10))) (Some (vgf_quad (\<lambda>i. Fin 0))) None (Fin (1 / 1000000))
     (Fin (66 / 100)) (Fin 5) (Fin (1 / 10)) (Fin (9 / 10)) (Fin (1 / 10)) 1)) = 1 \<and>
   converged (fst (hager_zhang 1 tfm_fl lib_narrow float32 vgf_quad None
     (Some (vgf_quad (\<lambda>i. Fin 10))) (Some (vgf_quad (\<lambda>i. Fin 0))) None (Fin (1 / 1000000))
     (Fin (66 / 100)) (Fin 5) (Fin (1 / 10)) (Fin (9 / 10)) (Fin (1 / 10)) 1)) 0 = False \<and>
   failed (fst (hager_zhang 1 tfm_fl lib_narrow float32 vgf_quad None
     (Some (vgf_quad (\<lambda>i. Fin 10))) (Some (vgf_quad (\<lambda>i. Fin 0))) None (Fin (1 / 1000000))
     (Fin (66 / 100)) (Fin 5) (Fin (1 / 10)) (Fin (9 / 10)) (Fin (1 / 10)) 1)) 0 = False \<and>
   failed (fst (hager_zhang 1 tfm_fl lib_narrow float32 vgf_quad None
     (Some (vgf_quad (\<lambda>i. Fin 10))) (Some (vgf_quad (\<lambda>i. Fin 0))) None (Fin (1 / 1000000))
     (Fin (66 / 100)) (Fin 5) (Fin (1 / 10)) (Fin (9 / 10)) (Fin (1 / 10)) 0)) 0 = True"
  by (simp add: tfm_fl_def vgf_quad_def hzl_is_finite_def tf_where_def val_where_def
      very_close_def fl_ulp_def zero_fl_def one_fl_def fix_step_size_def fix_step_loop.simps
      fix_step_cond_def fix_step_next_c_def to_fix_input_def iter_max_simps Let_def
      lib_narrow_def bracket_id_def secant2_narrow_def update_right_def loop_body_def
      do_check_shrinkage_def line_search_inner_bisection_def secant2_step_def
      should_check_shrinkage_def sufficient_shrinkage_def func_is_flat_def new_converged_def
      needs_inner_bisect_def bisection_midpoint_def loop_cond_def line_search_loop.simps
      line_search_after_bracketing_def bracket_and_search_def line_search_args_def
      hager_zhang_def init_interval_def prepare_args_def valid_inputs_def init_converged_def)

text \<open>
  C3. For a pre-converged element the result has \<^verbatim>\<open>right\<close> equal to the evaluation at
  zero, not to the evaluation at the initial step:
  \<^verbatim>\<open>hzl.val_where(init_converged, val_0, val_c)\<close> selects \<^verbatim>\<open>val_0\<close> where the mask holds.
\<close>

theorem pre_converged_right_is_zero_point:
  "converged (fst (hager_zhang 1 tfm_fl lib_narrow float32 vgf_quad None
     (Some (vgf_quad (\<lambda>i. Fin 1))) (Some (vgf_quad (\<lambda>i. Fin 0))) (Some (\<lambda>i. True))
     (Fin (1 / 1000000)) (Fin (66 / 100)) (Fin 5) (Fin (1 / 10)) (Fin (9 / 10)) (Fin (1 / 10))
     50)) 0 = True \<and>
   val_at (right (fst (hager_zhang 1 tfm_fl lib_narrow float32 vgf_quad None
     (Some (vgf_quad (\<lambda>i. Fin 1))) (Some (vgf_quad (\<lambda>i. Fin 0))) (Some (\<lambda>i. True))
     (Fin (1 / 1000000)) (Fin (66 / 100)) (Fin 5) (Fin (1 / 10)) (Fin (9 / 10)) (Fin (1 / 10))
     50))) 0 = val_at (vgf_quad (\<lambda>i. Fin 0)) 0 \<and>
   val_at (right (fst (hager_zhang 1 tfm_fl lib_narrow float32 vgf_quad None
     (Some (vgf_quad (\<lambda>i. Fin 1))) (Some (vgf_quad (\<lambda>i. Fin 0))) (Some (\<lambda>i. True))
     (Fin (1 / 1000000)) (Fin (66 / 100)) (Fin 5) (Fin (1 / 10)) (Fin (9 / 10)) (Fin (1 / 10))
     50))) 0 \<noteq> val_at (vgf_quad (\<lambda>i. Fin 1)) 0 \<and>
   x (right (fst (hager_zhang 1 tfm_fl lib_narrow float32 vgf_quad None
     (Some (vgf_quad (\<lambda>i. Fin 1))) (Some (vgf_quad (\<lambda>i. Fin 0))) (Some (\<lambda>i. True))
     (Fin (1 / 1000000)) (Fin (66 / 100)) (Fin 5) (Fin (1 / 10)) (Fin (9 / 10)) (Fin (1 / 10))
     50))) 0 = Fin 0"
  by (simp add: tfm_fl_def vgf_quad_def hzl_is_finite_def tf_where_def val_where_def
      very_close_def fl_ulp_def val_at_def zero_fl_def one_fl_def fix_step_size_def
      fix_step_loop.simps fix_step_cond_def fix_step_next_c_def to_fix_input_def iter_max_simps
      Let_def lib_narrow_def bracket_id_def secant2_narrow_def update_right_def loop_body_def
      do_check_shrinkage_def line_search_inner_bisection_def secant2_step_def
      should_check_shrinkage_def sufficient_shrinkage_def func_is_flat_def new_converged_def
      needs_inner_bisect_def bisection_midpoint_def loop_cond_def line_search_loop.simps
      line_search_after_bracketing_def bracket_and_search_def line_search_args_def
      hager_zhang_def init_interval_def prepare_args_def valid_inputs_def init_converged_def)

text \<open>
  C4. On the flat function the element converges by the flatness test with the bracket
  \<open>[1, 3]\<close>: the result is converged and its two end points differ.
\<close>

theorem converged_with_distinct_ends:
  "converged (fst (hager_zhang 1 tfm_fl lib_narrow float32 vgf_flat None
     (Some (vgf_flat (\<lambda>i. Fin 10))) (Some (vgf_flat (\<lambda>i. Fin 0))) None (Fin (1 / 1000000))
     (Fin (66 / 100)) (Fin 5) (Fin (1 / 10)) (Fin (9 / 10)) (Fin (1 / 10)) 50)) 0 = True \<and>
   x (left (fst (hager_zhang 1 tfm_fl lib_narrow float32 vgf_flat None
     (Some (vgf_flat (\<lambda>i. Fin 10))) (Some (vgf_flat (\<lambda>i. Fin 0))) None (Fin (1 / 1000000))
     (Fin (66 / 100)) (Fin 5) (Fin (1 / 10)) (Fin (9 / 10)) (Fin (1 / 10)) 50))) 0 = Fin 1 \<and>
   x (right (fst (hager_zhang 1 tfm_fl lib_narrow float32 vgf_flat None
     (Some (vgf_flat (\<lambda>i. Fin 10))) (Some (vgf_flat (\<lambda>i. Fin 0))) None (Fin (1 / 1000000))
     (Fin (66 / 100)) (Fin 5) (Fin (1 / 10)) (Fin (9 / 10)) (Fin (1 / 10)) 50))) 0 = Fin 3"
  by (simp add: tfm_fl_def vgf_flat_def hzl_is_finite_def tf_where_def val_where_def
      very_close_def fl_ulp_def zero_fl_def one_fl_def fix_step_size_def fix_step_loop.simps
      fix_step_cond_def fix_step_next_c_def to_fix_input_def iter_max_simps Let_def
      lib_narrow_def bracket_id_def secant2_narrow_def update_right_def loop_body_def
      do_check_shrinkage_def line_search_inner_bisection_def secant2_step_def
      should_check_shrinkage_def sufficient_shrinkage_def func_is_flat_def new_converged_def
      needs_inner_bisect_def bisection_midpoint_def loop_cond_def line_search_loop.simps
      line_search_after_bracketing_def bracket_and_search_def line_search_args_def
      hager_zhang_def init_interval_def prepare_args_def valid_inputs_def init_converged_def)

end
